theory Spec2Isabelle
  imports Main "HOL-Library.Multiset"
begin

section \<open>JavaScript values used by script.js\<close>

text \<open>
  The browser application \<^verbatim>\<open>script.js\<close> (class \<^verbatim>\<open>LocalFileShare\<close>) is embedded
  function by function. Strings are \<^typ>\<open>string\<close>, byte sequences are lists of
  8-bit characters, and every value the page obtains from its environment (the outcome of
  a \<^verbatim>\<open>fetch\<close>, the text of a random number, the user agent, ICE candidates) is an
  explicit argument of the function that consumes it.
\<close>

type_synonym bytes = "char list"

text \<open>
  A promise handed to \<^verbatim>\<open>await\<close>: it is fulfilled with a value, rejected with an
  error message, or it never settles.
\<close>

datatype 'a promise = Fulfilled 'a | RejectedWith string | Unsettled

text \<open>
  The completion of a (possibly async) method run on a state: it returns, it throws
  (an async method rejects), or it stays suspended at an \<^verbatim>\<open>await\<close> for ever. The state
  carried is the one reached at that point, since every mutation done so far persists.
\<close>

datatype 's run = Returned 's | Raised string 's | Stuck 's

fun state_of :: "'s run \<Rightarrow> 's" where
  "state_of (Returned s) = s"
| "state_of (Raised e s) = s"
| "state_of (Stuck s) = s"

text \<open>Sequencing of statements, and \<^verbatim>\<open>try { ... } catch (error) { ... }\<close>.\<close>

fun and_then :: "'s run \<Rightarrow> ('s \<Rightarrow> 's run) \<Rightarrow> 's run" where
  "and_then (Returned s) k = k s"
| "and_then (Raised e s) k = Raised e s"
| "and_then (Stuck s) k = Stuck s"

fun try_catch :: "'s run \<Rightarrow> (string \<Rightarrow> 's \<Rightarrow> 's run) \<Rightarrow> 's run" where
  "try_catch (Returned s) h = Returned s"
| "try_catch (Raised e s) h = h e s"
| "try_catch (Stuck s) h = Stuck s"

fun is_stuck :: "'s run \<Rightarrow> bool" where
  "is_stuck (Stuck s) = True"
| "is_stuck (Returned s) = False"
| "is_stuck (Raised e s) = False"

fun is_raised :: "'s run \<Rightarrow> bool" where
  "is_raised (Raised e s) = True"
| "is_raised (Returned s) = False"
| "is_raised (Stuck s) = False"

subsection \<open>Strings\<close>

text \<open>
  A character stands for a code unit below 256. The white space and line terminators of
  JavaScript in that range are the five ASCII control characters, the blank and the
  no-break space \<^verbatim>\<open>U+00A0\<close>; \<^verbatim>\<open>String.prototype.trim\<close> and \<^verbatim>\<open>parseInt\<close> skip them.
\<close>

definition is_space :: "char \<Rightarrow> bool" where
  "is_space c =
     (c \<in> set [CHR 0x20, CHR 0x09, CHR 0x0A, CHR 0x0B, CHR 0x0C, CHR 0x0D, CHR 0xA0])"

definition trim :: "string \<Rightarrow> string" where
  "trim s = rev (dropWhile is_space (rev (dropWhile is_space s)))"

definition endsWith :: "string \<Rightarrow> string \<Rightarrow> bool" where
  "endsWith s suffix =
     (length suffix \<le> length s \<and> drop (length s - length suffix) s = suffix)"

text \<open>\<^verbatim>\<open>s.substr(start, len)\<close> for non-negative arguments.\<close>

definition substr :: "string \<Rightarrow> nat \<Rightarrow> nat \<Rightarrow> string" where
  "substr s start len = take len (drop start s)"

fun startsWith :: "string \<Rightarrow> string \<Rightarrow> bool" where
  "startsWith s [] = True"
| "startsWith [] (p # ps) = False"
| "startsWith (c # cs) (p # ps) = (c = p \<and> startsWith cs ps)"

fun includes_text :: "string \<Rightarrow> string \<Rightarrow> bool" where
  "includes_text [] sub = (sub = [])"
| "includes_text (c # cs) sub = (startsWith (c # cs) sub \<or> includes_text cs sub)"

definition lower_char :: "char \<Rightarrow> char" where
  "lower_char c =
     (case map_of (zip ''ABCDEFGHIJKLMNOPQRSTUVWXYZ'' ''abcdefghijklmnopqrstuvwxyz'') c of
        Some l \<Rightarrow> l
      | None \<Rightarrow> c)"

definition toLowerCase :: "string \<Rightarrow> string" where
  "toLowerCase s = map lower_char s"

definition is_digit :: "char \<Rightarrow> bool" where
  "is_digit c = (c \<in> set ''0123456789'')"

definition digit_val :: "char \<Rightarrow> nat" where
  "digit_val c = of_char c - 48"

definition digit_char :: "nat \<Rightarrow> char" where
  "digit_char d = ''0123456789'' ! d"

text \<open>The decimal text of a non-negative integer, as string conversion of a number gives.\<close>

fun decimal :: "nat \<Rightarrow> string" where
  "decimal n = (if n < 10 then [digit_char n] else decimal (n div 10) @ [digit_char (n mod 10)])"

text \<open>
  \<^verbatim>\<open>parseInt(text, 10)\<close>: leading white space is skipped, one sign is accepted, and the
  longest run of decimal digits is read; with no digit the result is \<^verbatim>\<open>NaN\<close>, written
  \<open>None\<close>. The argument \<^verbatim>\<open>null\<close> (a header that is absent) is first turned into the
  text \<^verbatim>\<open>null\<close>, which has no digit. Values are exact below \<open>2^53\<close>.
\<close>

definition digits_value :: "string \<Rightarrow> nat" where
  "digits_value ds = foldl (\<lambda>a c. 10 * a + digit_val c) 0 ds"

definition parse_signed :: "string \<Rightarrow> int option" where
  "parse_signed t =
     (case t of
        c # r \<Rightarrow>
          if c = CHR ''-'' then
            (if takeWhile is_digit r = [] then None
             else Some (- int (digits_value (takeWhile is_digit r))))
          else if c = CHR ''+'' then
            (if takeWhile is_digit r = [] then None
             else Some (int (digits_value (takeWhile is_digit r))))
          else
            (if takeWhile is_digit t = [] then None
             else Some (int (digits_value (takeWhile is_digit t))))
      | [] \<Rightarrow> None)"

definition parseInt :: "string option \<Rightarrow> int option" where
  "parseInt text =
     (case text of
        None \<Rightarrow> parse_signed ''null''
      | Some s \<Rightarrow> parse_signed (dropWhile is_space s))"

text \<open>
  The regular expression \<^verbatim>\<open>/(\d+\.\d+\.\d+\.\d+)/\<close> of \<^verbatim>\<open>detectNetworkInfo\<close>:
  \<open>match_groups k\<close> matches \<open>k\<close> digit runs separated by dots at the start of the text
  (a digit run is followed by a dot or ends the match, so the greedy run is the only
  candidate), and \<open>match_ipv4\<close> returns the leftmost match.
\<close>

fun match_groups :: "nat \<Rightarrow> string \<Rightarrow> string option" where
  "match_groups 0 s = None"
| "match_groups (Suc k) s =
     (if takeWhile is_digit s = [] then None
      else if k = 0 then Some (takeWhile is_digit s)
      else (case dropWhile is_digit s of
              c # r \<Rightarrow>
                if c = CHR ''.'' then
                  map_option (\<lambda>m. takeWhile is_digit s @ CHR ''.'' # m) (match_groups k r)
                else None
            | [] \<Rightarrow> None))"

fun match_ipv4 :: "string \<Rightarrow> string option" where
  "match_ipv4 [] = None"
| "match_ipv4 (c # cs) =
     (case match_groups 4 (c # cs) of
        Some m \<Rightarrow> Some m
      | None \<Rightarrow> match_ipv4 cs)"

subsection \<open>formatFileSize\<close>

text \<open>The exact integer logarithm: the largest \<open>i\<close> with \<open>k ^ i \<le> n\<close>.\<close>

fun floor_log :: "nat \<Rightarrow> nat \<Rightarrow> nat" where
  "floor_log k n = (if k < 2 \<or> n < k then 0 else Suc (floor_log k (n div k)))"

text \<open>
  \<^verbatim>\<open>Math.floor(Math.log(bytes) / Math.log(k))\<close> with \<open>k = 1024\<close>. For integers below
  \<open>2^53\<close> the double computation gives the exact integer logarithm, except at the three
  byte counts \<open>1024^5 - 3\<close>, \<open>1024^5 - 2\<close> and \<open>1024^5 - 1\<close>, where the quotient of the
  two logarithms is already 5. Above \<open>2^53\<close> the model is exact away from the powers of
  1024, as at \<open>2^55\<close>, where the quotient is 5.5.
\<close>

definition log_index :: "nat \<Rightarrow> nat" where
  "log_index bytes =
     (if 1024 ^ 5 \<le> bytes + 3 \<and> bytes < 1024 ^ 5 then 5 else floor_log 1024 bytes)"

text \<open>
  \<^verbatim>\<open>(bytes / Math.pow(k, i)).toFixed(2)\<close>: the quotient is exact (a division by a power
  of two), and \<^verbatim>\<open>toFixed\<close> picks the nearest multiple of one hundredth, the larger one
  on a tie. The result is kept as a number of hundredths.
\<close>

definition toFixed2 :: "nat \<Rightarrow> nat \<Rightarrow> nat" where
  "toFixed2 num den = (200 * num + den) div (2 * den)"

text \<open>
  \<^verbatim>\<open>parseFloat(text) + ' '\<close>: the number read back from the two-decimal text is printed
  without trailing zeros.
\<close>

definition number_text :: "nat \<Rightarrow> string" where
  "number_text h =
     decimal (h div 100) @
     (if h mod 100 = 0 then ''''
      else if h mod 10 = 0 then [CHR ''.'', digit_char (h mod 100 div 10)]
      else [CHR ''.'', digit_char (h mod 100 div 10), digit_char (h mod 10)])"

definition sizes :: "string list" where
  "sizes = [''Bytes'', ''KB'', ''MB'', ''GB'', ''TB'']"

text \<open>An index past the end of \<^verbatim>\<open>sizes\<close> reads \<^verbatim>\<open>undefined\<close>, which is concatenated as text.\<close>

definition formatFileSize :: "nat \<Rightarrow> string" where
  "formatFileSize bytes =
     (if bytes = 0 then ''0 Bytes''
      else number_text (toFixed2 bytes (1024 ^ log_index bytes)) @ '' '' @
           (if log_index bytes < length sizes then sizes ! log_index bytes
            else ''undefined''))"

subsection \<open>Request addresses\<close>

text \<open>
  The three places that build a request address from the host address: \<^verbatim>\<open>testUrl\<close> in
  \<^verbatim>\<open>connectToHost\<close>, \<^verbatim>\<open>filesUrl\<close> in \<^verbatim>\<open>loadAvailableFiles\<close> and \<^verbatim>\<open>downloadUrl\<close> in
  \<^verbatim>\<open>downloadFile\<close>. The field \<^verbatim>\<open>currentHostUrl\<close> is \<^verbatim>\<open>null\<close> (\<open>None\<close>) until a
  connection succeeded; \<^verbatim>\<open>null\<close> and the empty text are falsy.
\<close>

definition truthy :: "string option \<Rightarrow> bool" where
  "truthy v = (case v of None \<Rightarrow> False | Some s \<Rightarrow> s \<noteq> [])"

definition testUrl :: "string \<Rightarrow> string" where
  "testUrl hostUrl =
     (if endsWith hostUrl ''/'' then hostUrl @ ''api/files'' else hostUrl @ ''/api/files'')"

definition filesUrl :: "string option \<Rightarrow> string" where
  "filesUrl currentHostUrl =
     (if truthy currentHostUrl then
        (if endsWith (the currentHostUrl) ''/'' then the currentHostUrl @ ''api/files''
         else the currentHostUrl @ ''/api/files'')
      else ''/api/files'')"

definition downloadUrl :: "string option \<Rightarrow> string \<Rightarrow> string" where
  "downloadUrl currentHostUrl fileId =
     (if truthy currentHostUrl then
        (if endsWith (the currentHostUrl) ''/'' then
           the currentHostUrl @ ''api/download/'' @ fileId
         else the currentHostUrl @ ''/api/download/'' @ fileId)
      else ''/api/download/'' @ fileId)"

section \<open>The page state and its environment\<close>

text \<open>A \<^verbatim>\<open>File\<close> object picked by the user; its \<^verbatim>\<open>size\<close> is the length of its content.\<close>

record jsfile =
  file_name :: string
  file_type :: string
  file_content :: bytes

definition file_size :: "jsfile \<Rightarrow> nat" where
  "file_size f = length (file_content f)"

text \<open>
  What the page does to the outside world, in order: requests issued with \<^verbatim>\<open>fetch\<close>
  (method, address, form fields), navigation, saving a blob under a name, and the
  operations on peer connections. \<open>DataChannelSend\<close> stands for a call of
  \<^verbatim>\<open>send\<close> on a data channel.
\<close>

datatype form_value = FormFile jsfile | FormText string

datatype effect =
    Fetch string string "(string \<times> form_value) list"
  | Navigate string
  | SaveAs string bytes
  | NewPeerConnection "string list"
  | CreateDataChannel string
  | ClosePeerConnection
  | DataChannelSend string

text \<open>The parts of a response that the page reads.\<close>

record file_entry =
  fe_id :: string
  fe_name :: string
  fe_size :: nat
  fe_type :: string

record json =
  j_server_url :: "string option"
  j_files :: "file_entry list option"

datatype body_event = Data bytes | Abort string | Stall

record response =
  resp_ok :: bool
  resp_status :: nat
  resp_headers :: "(string \<times> string) list"
  resp_json :: "json option"
  resp_body :: "body_event list"

text \<open>
  \<open>resp_json\<close> is \<open>None\<close> when \<^verbatim>\<open>response.json()\<close> rejects. \<open>resp_body\<close> is what
  successive \<^verbatim>\<open>reader.read()\<close> calls deliver: a chunk, a failure of the connection, or
  nothing ever; after the last event the stream is done.
\<close>

datatype rtc_env = NoRtc string | OfferFails string | Gathering "string option list"

datatype html_block = Heading | FileItem string string string | NoFilesNote | LoadError

datatype timer = DetectionTimeout | DownloadStartedToast string

text \<open>
  The number \<^verbatim>\<open>Math.round((loaded / total) * 100)\<close> is a double computation; it is kept
  as the pair of its operands, \<open>total\<close> being \<open>None\<close> for \<^verbatim>\<open>NaN\<close>.
\<close>

datatype progress = RoundPercent nat "int option"

record app =
  files :: "(string \<times> jsfile) list"
  serverPort :: nat
  serverUrl :: "string option"
  currentHostUrl :: "string option"
  networkStatus :: "string \<times> string"
  serverUrlText :: string
  connectionStatus :: "string \<times> string"
  availableFiles :: "html_block list"
  fileList :: "(string \<times> string \<times> string) list"
  shareInfoShown :: bool
  shareUrlValue :: string
  progressList :: "(string \<times> string) list"
  progressText :: "(string \<times> progress) list"
  toasts :: "(string \<times> string) list"
  console :: "string list"
  timers :: "timer list"
  effects :: "effect list"

text \<open>The state set up by the constructor, before \<^verbatim>\<open>init\<close> runs.\<close>

definition new_app :: app where
  "new_app =
     \<lparr>files = [], serverPort = 8080, serverUrl = Some '''', currentHostUrl = None,
      networkStatus = ('''', ''''), serverUrlText = '''', connectionStatus = ('''', ''''),
      availableFiles = [], fileList = [], shareInfoShown = False, shareUrlValue = '''',
      progressList = [], progressText = [], toasts = [], console = [], timers = [],
      effects = []\<rparr>"

definition emit :: "effect \<Rightarrow> app \<Rightarrow> app" where
  "emit e s = s\<lparr>effects := effects s @ [e]\<rparr>"

definition log_line :: "string \<Rightarrow> app \<Rightarrow> app" where
  "log_line m s = s\<lparr>console := console s @ [m]\<rparr>"

text \<open>\<^verbatim>\<open>await fetch(...)\<close>: the request goes out, then the promise decides what follows.\<close>

definition await_fetch ::
  "effect \<Rightarrow> response promise \<Rightarrow> app \<Rightarrow> (response \<Rightarrow> app \<Rightarrow> app run) \<Rightarrow> app run" where
  "await_fetch req p s k =
     (case p of
        Fulfilled r \<Rightarrow> k r (emit req s)
      | RejectedWith e \<Rightarrow> Raised e (emit req s)
      | Unsettled \<Rightarrow> Stuck (emit req s))"

subsection \<open>The Map of shared files\<close>

fun map_set :: "string \<Rightarrow> 'v \<Rightarrow> (string \<times> 'v) list \<Rightarrow> (string \<times> 'v) list" where
  "map_set k v [] = [(k, v)]"
| "map_set k v ((k', v') # m) = (if k' = k then (k, v) # m else (k', v') # map_set k v m)"

definition map_delete :: "string \<Rightarrow> (string \<times> 'v) list \<Rightarrow> (string \<times> 'v) list" where
  "map_delete k m = filter (\<lambda>kv. fst kv \<noteq> k) m"

subsection \<open>Notifications\<close>

text \<open>
  \<open>toasts\<close> lists the toasts shown so far, each with its type; their removal after a few
  seconds is left out. The default type of \<^verbatim>\<open>showToast\<close> is \<^verbatim>\<open>success\<close>.
\<close>

definition showToast :: "string \<Rightarrow> string \<Rightarrow> app \<Rightarrow> app" where
  "showToast message type s = s\<lparr>toasts := toasts s @ [(message, type)]\<rparr>"

definition updateNetworkStatus :: "string \<Rightarrow> string \<Rightarrow> app \<Rightarrow> app" where
  "updateNetworkStatus message type s =
     s\<lparr>networkStatus := (message, type),
       serverUrlText :=
         (if truthy (serverUrl s) then ''Server URL: '' @ the (serverUrl s)
          else serverUrlText s)\<rparr>"

definition showConnectionStatus :: "string \<Rightarrow> string \<Rightarrow> app \<Rightarrow> app" where
  "showConnectionStatus message type s = s\<lparr>connectionStatus := (message, type)\<rparr>"

subsection \<open>Host mode: sharing files\<close>

text \<open>
  \<^verbatim>\<open>generateId\<close>: the argument is the text \<^verbatim>\<open>Math.random().toString(36)\<close>, of which the
  nine characters after the leading \<^verbatim>\<open>0.\<close> are kept.
\<close>

definition generateId :: "string \<Rightarrow> string" where
  "generateId random36 = substr random36 2 9"

text \<open>
  The markup of a list item is reduced to what it shows: the id used by its button, the
  name and the formatted size. The icon chosen by \<^verbatim>\<open>getFileIcon\<close> is left out.
\<close>

definition createFileItem :: "jsfile \<Rightarrow> string \<Rightarrow> string \<times> string \<times> string" where
  "createFileItem file fileId = (fileId, file_name file, formatFileSize (file_size file))"

definition updateFileList :: "app \<Rightarrow> app" where
  "updateFileList s = s\<lparr>fileList := map (\<lambda>kv. createFileItem (snd kv) (fst kv)) (files s)\<rparr>"

text \<open>The QR code drawn by \<^verbatim>\<open>updateShareInfo\<close> is left out.\<close>

definition updateShareInfo :: "app \<Rightarrow> app" where
  "updateShareInfo s =
     (if files s \<noteq> [] \<and> truthy (serverUrl s)
      then s\<lparr>shareInfoShown := True, shareUrlValue := the (serverUrl s)\<rparr>
      else s\<lparr>shareInfoShown := False\<rparr>)"

definition uploadFileToServer :: "string \<Rightarrow> jsfile \<Rightarrow> response promise \<Rightarrow> app \<Rightarrow> app run" where
  "uploadFileToServer fileId file fetched s =
     try_catch
       (await_fetch
          (Fetch ''POST'' ''/api/upload'' [(''file'', FormFile file), (''fileId'', FormText fileId)])
          fetched s
          (\<lambda>r s1.
             if resp_ok r then
               Returned (showToast (file_name file @ '' uploaded and ready to share!'') ''success''
                           (log_line (''File uploaded: '' @ file_name file) s1))
             else
               Returned (showToast (''Failed to upload '' @ file_name file) ''success''
                           (log_line ''Failed to upload file'' s1))))
       (\<lambda>e s1. Returned (showToast (''Error uploading '' @ file_name file) ''success''
                           (log_line (''Error uploading file: '' @ e) s1)))"

text \<open>
  \<^verbatim>\<open>handleFiles\<close>: each file comes with the random text its id is cut from and with the
  outcome of its upload request.
\<close>

fun handleFiles :: "(jsfile \<times> string \<times> response promise) list \<Rightarrow> app \<Rightarrow> app run" where
  "handleFiles [] s = Returned (updateShareInfo s)"
| "handleFiles ((file, random36, fetched) # rest) s =
     and_then
       (uploadFileToServer (generateId random36) file fetched
          (s\<lparr>files := map_set (generateId random36) file (files s)\<rparr>))
       (\<lambda>s1. handleFiles rest
                (s1\<lparr>fileList := fileList s1 @ [createFileItem file (generateId random36)]\<rparr>))"

definition removeFile :: "string \<Rightarrow> response promise \<Rightarrow> app \<Rightarrow> app run" where
  "removeFile fileId fetched s =
     and_then
       (try_catch
          (await_fetch (Fetch ''DELETE'' (''/api/remove-file/'' @ fileId) []) fetched
             (s\<lparr>files := map_delete fileId (files s)\<rparr>)
             (\<lambda>r s1. Returned (if resp_ok r then showToast ''File removed successfully'' ''success'' s1
                                else s1)))
          (\<lambda>e s1. Returned (log_line (''Error removing file from server: '' @ e) s1)))
       (\<lambda>s1. Returned (updateShareInfo (updateFileList s1)))"

subsection \<open>Network detection\<close>

definition localhostUrl :: "app \<Rightarrow> string" where
  "localhostUrl s = ''http://localhost:'' @ decimal (serverPort s)"

text \<open>The callback of the five-second timer of \<^verbatim>\<open>detectNetworkInfo\<close>.\<close>

definition detectionTimeout :: "app \<Rightarrow> app" where
  "detectionTimeout s =
     updateNetworkStatus ''Using localhost - network detection failed'' ''warning''
       ((emit ClosePeerConnection s)\<lparr>serverUrl := Some (localhostUrl s)\<rparr>)"

text \<open>
  The ICE candidate events that arrive before the timer fires. The first candidate with
  a dotted quad resolves the promise and closes the connection; the timer stays scheduled.
  With no such candidate the timer callback resolves the promise.
\<close>

fun gather :: "string option list \<Rightarrow> app \<Rightarrow> app run" where
  "gather [] s = Returned (detectionTimeout s)"
| "gather (None # events) s = gather events s"
| "gather (Some candidate # events) s =
     (case match_ipv4 candidate of
        None \<Rightarrow> gather events s
      | Some localIP \<Rightarrow>
          Returned
            ((emit ClosePeerConnection
                (updateNetworkStatus ''Connected to local network'' ''success''
                   (s\<lparr>serverUrl := Some (''http://'' @ localIP @ '':'' @ decimal (serverPort s))\<rparr>)))
             \<lparr>timers := timers s @ [DetectionTimeout]\<rparr>))"

text \<open>The \<^verbatim>\<open>catch\<close> block of the WebRTC fallback.\<close>

definition detectionFailed :: "string \<Rightarrow> app \<Rightarrow> app" where
  "detectionFailed e s =
     (updateNetworkStatus ''Network detection failed - using localhost'' ''error''
        (log_line (''Network detection failed: '' @ e) s))
     \<lparr>serverUrl := Some (localhostUrl s)\<rparr>"

definition webrtcFallback :: "rtc_env \<Rightarrow> app \<Rightarrow> app run" where
  "webrtcFallback rtc s =
     (case rtc of
        NoRtc e \<Rightarrow> Returned (detectionFailed e s)
      | OfferFails e \<Rightarrow>
          Returned (detectionFailed e (emit (CreateDataChannel '''') (emit (NewPeerConnection []) s)))
      | Gathering events \<Rightarrow>
          gather events (emit (CreateDataChannel '''') (emit (NewPeerConnection []) s)))"

definition detectNetworkInfo :: "response promise \<Rightarrow> rtc_env \<Rightarrow> app \<Rightarrow> app run" where
  "detectNetworkInfo info rtc s =
     (case info of
        Unsettled \<Rightarrow> Stuck (emit (Fetch ''GET'' ''/api/network-info'' []) s)
      | RejectedWith e \<Rightarrow>
          webrtcFallback rtc
            (log_line ''Server network info not available, using WebRTC fallback''
               (emit (Fetch ''GET'' ''/api/network-info'' []) s))
      | Fulfilled r \<Rightarrow>
          if resp_ok r then
            (case resp_json r of
               None \<Rightarrow>
                 webrtcFallback rtc
                   (log_line ''Server network info not available, using WebRTC fallback''
                      (emit (Fetch ''GET'' ''/api/network-info'' []) s))
             | Some networkInfo \<Rightarrow>
                 Returned
                   (updateNetworkStatus ''Connected to local network'' ''success''
                      ((emit (Fetch ''GET'' ''/api/network-info'' []) s)
                       \<lparr>serverUrl := j_server_url networkInfo\<rparr>)))
          else webrtcFallback rtc (emit (Fetch ''GET'' ''/api/network-info'' []) s))"

text \<open>
  \<^verbatim>\<open>setupPeerConnection\<close> has no \<^verbatim>\<open>try\<close> block: when the constructor
  \<^verbatim>\<open>RTCPeerConnection\<close> is not available, the error it raises (the argument, \<open>None\<close>
  when the constructor works) leaves the method.
\<close>

definition setupPeerConnection :: "string option \<Rightarrow> app \<Rightarrow> app run" where
  "setupPeerConnection unavailable s =
     (case unavailable of
        Some e \<Rightarrow> Raised e s
      | None \<Rightarrow>
          Returned
            (emit (CreateDataChannel ''fileTransfer'')
               (emit (NewPeerConnection [''stun:stun.l.google.com:19302'']) s)))"

text \<open>
  \<^verbatim>\<open>handleDataChannelMessage\<close>: the argument is the result of \<^verbatim>\<open>JSON.parse(data)\<close>,
  \<open>None\<close> when it throws, otherwise the \<^verbatim>\<open>type\<close> field of the message. The methods
  \<^verbatim>\<open>displayAvailableFiles\<close>, \<^verbatim>\<open>handleFileChunk\<close> and \<^verbatim>\<open>handleFileComplete\<close> are not
  defined by the class, so calling them throws inside the \<^verbatim>\<open>try\<close> block.
\<close>

definition handleDataChannelMessage :: "string option option \<Rightarrow> app \<Rightarrow> app run" where
  "handleDataChannelMessage parsed s =
     try_catch
       (case parsed of
          None \<Rightarrow> Raised ''Unexpected token'' s
        | Some type \<Rightarrow>
            if type = Some ''fileList'' then
              Raised ''this.displayAvailableFiles is not a function'' (log_line ''Received message:'' s)
            else if type = Some ''fileChunk'' then
              Raised ''this.handleFileChunk is not a function'' (log_line ''Received message:'' s)
            else if type = Some ''fileComplete'' then
              Raised ''this.handleFileComplete is not a function'' (log_line ''Received message:'' s)
            else Returned (log_line ''Received message:'' s))
       (\<lambda>e s1. Returned (log_line (''Error handling data channel message: '' @ e) s1))"

subsection \<open>Client mode: browsing and downloading\<close>

text \<open>
  An entry of the listing as \<^verbatim>\<open>loadAvailableFiles\<close> renders it; entries are taken to
  carry all four fields.
\<close>

definition render_entry :: "file_entry \<Rightarrow> html_block" where
  "render_entry file = FileItem (fe_id file) (fe_name file) (formatFileSize (fe_size file))"

definition loadAvailableFiles :: "response promise \<Rightarrow> app \<Rightarrow> app run" where
  "loadAvailableFiles fetched s =
     try_catch
       (await_fetch (Fetch ''GET'' (filesUrl (currentHostUrl s)) []) fetched
          (log_line (''Fetching files from: '' @ filesUrl (currentHostUrl s)) s)
          (\<lambda>r s1.
             case resp_json r of
               None \<Rightarrow> Raised ''Unexpected token'' s1
             | Some data \<Rightarrow>
                 if j_files data \<noteq> None \<and> the (j_files data) \<noteq> [] then
                   Returned
                     (showToast (''Found '' @ decimal (length (the (j_files data))) @
                                 '' file(s) to download'') ''success''
                        ((log_line ''Files received:'' s1)
                         \<lparr>availableFiles := Heading # map render_entry (the (j_files data))\<rparr>))
                 else
                   Returned
                     ((log_line ''Files received:'' s1)
                      \<lparr>availableFiles := [Heading, NoFilesNote]\<rparr>)))
       (\<lambda>e s1. Returned ((log_line (''Error loading files: '' @ e) s1)
                          \<lparr>availableFiles := availableFiles s1 @ [LoadError]\<rparr>))"

definition connectToHost ::
  "string \<Rightarrow> response promise \<Rightarrow> response promise \<Rightarrow> app \<Rightarrow> app run" where
  "connectToHost input tested listed s =
     (if trim input = [] then
        Returned (showConnectionStatus ''Please enter a host URL'' ''error'' s)
      else
        try_catch
          (await_fetch (Fetch ''GET'' (testUrl (trim input)) []) tested
             (showConnectionStatus ''Connecting...'' ''info'' s)
             (\<lambda>r s1.
                if resp_ok r then
                  loadAvailableFiles listed
                    ((showConnectionStatus ''Connected successfully!'' ''success'' s1)
                     \<lparr>currentHostUrl := Some (trim input)\<rparr>)
                else Raised (''Server responded with '' @ decimal (resp_status r)) s1))
          (\<lambda>e s1. Returned (showConnectionStatus (''Connection failed: '' @ e) ''error'' s1)))"

text \<open>The test \<^verbatim>\<open>/mobile|android|iphone|ipad/\<close> on the lower-cased user agent.\<close>

definition isMobile :: "string \<Rightarrow> bool" where
  "isMobile userAgent =
     (includes_text (toLowerCase userAgent) ''mobile'' \<or>
      includes_text (toLowerCase userAgent) ''android'' \<or>
      includes_text (toLowerCase userAgent) ''iphone'' \<or>
      includes_text (toLowerCase userAgent) ''ipad'')"

text \<open>
  The function \<^verbatim>\<open>pump\<close> inside \<^verbatim>\<open>downloadFile\<close>: \<open>loaded\<close> and the bytes enqueued so
  far are carried along; every chunk adds to \<open>loaded\<close> and writes the progress text.
\<close>

fun pump ::
  "string \<Rightarrow> int option \<Rightarrow> nat \<Rightarrow> bytes \<Rightarrow> body_event list \<Rightarrow> app \<Rightarrow> (bytes \<times> app) run" where
  "pump fileId size_total loaded blob [] s = Returned (blob, s)"
| "pump fileId size_total loaded blob (Data v # rest) s =
     pump fileId size_total (loaded + length v) (blob @ v) rest
       (s\<lparr>progressText := progressText s @ [(fileId, RoundPercent (loaded + length v) size_total)]\<rparr>)"
| "pump fileId size_total loaded blob (Abort e # rest) s = Raised e (blob, s)"
| "pump fileId size_total loaded blob (Stall # rest) s = Stuck (blob, s)"

text \<open>The progress texts written while the chunks \<open>cs\<close> arrive, starting from \<open>loaded\<close>.\<close>

fun reports :: "string \<Rightarrow> int option \<Rightarrow> nat \<Rightarrow> bytes list \<Rightarrow> (string \<times> progress) list" where
  "reports fileId size_total loaded [] = []"
| "reports fileId size_total loaded (c # cs) =
     (fileId, RoundPercent (loaded + length c) size_total) #
     reports fileId size_total (loaded + length c) cs"

fun with_blob :: "(bytes \<times> app) run \<Rightarrow> (bytes \<Rightarrow> app \<Rightarrow> app run) \<Rightarrow> app run" where
  "with_blob (Returned (blob, s)) k = k blob s"
| "with_blob (Raised e (blob, s)) k = Raised e s"
| "with_blob (Stuck (blob, s)) k = Stuck s"

definition downloadFile ::
  "string \<Rightarrow> string \<Rightarrow> string \<Rightarrow> response promise \<Rightarrow> app \<Rightarrow> app run" where
  "downloadFile fileId fileName userAgent fetched s =
     try_catch
       (if isMobile userAgent then
          Returned
            ((emit (Navigate (downloadUrl (currentHostUrl s) fileId))
                (showToast (''Starting download: '' @ fileName) ''info''
                   (log_line (''Downloading from: '' @ downloadUrl (currentHostUrl s) fileId) s)))
             \<lparr>timers := timers s @ [DownloadStartedToast fileName]\<rparr>)
        else
          await_fetch (Fetch ''GET'' (downloadUrl (currentHostUrl s) fileId) []) fetched
            ((log_line (''Downloading from: '' @ downloadUrl (currentHostUrl s) fileId) s)
             \<lparr>progressList := progressList s @ [(fileName, fileId)]\<rparr>)
            (\<lambda>r s1.
               if \<not> resp_ok r then Raised ''Download failed'' s1
               else
                 with_blob
                   (pump fileId (parseInt (map_of (resp_headers r) ''content-length'')) 0 []
                      (resp_body r) s1)
                   (\<lambda>blob s2.
                      Returned (showToast (fileName @ '' downloaded successfully!'') ''success''
                                  (emit (SaveAs fileName blob) s2)))))
       (\<lambda>e s1. Returned (showToast (''Failed to download '' @ fileName) ''error''
                           (log_line (''Download error: '' @ e) s1)))"

text \<open>A scheduled timer fires: its callback runs.\<close>

fun fire :: "timer \<Rightarrow> app \<Rightarrow> app" where
  "fire DetectionTimeout s = detectionTimeout s"
| "fire (DownloadStartedToast fileName) s =
     showToast (fileName @ '' download started! Check your downloads.'') ''success'' s"

subsection \<open>Executions of the page\<close>

text \<open>
  The events the page reacts to, each with the inputs its handler obtains from the
  environment. A handler that throws or stays suspended leaves the state it reached.
  Mode switching, the clipboard and the QR scanner move no file and issue no request;
  they are left out.
\<close>

datatype action =
    DetectNetworkInfo "response promise" rtc_env
  | SetupPeerConnection "string option"
  | HandleFiles "(jsfile \<times> string \<times> response promise) list"
  | RemoveFile string "response promise"
  | ConnectToHost string "response promise" "response promise"
  | LoadAvailableFiles "response promise"
  | DownloadFile string string string "response promise"
  | DataChannelMessage "string option option"
  | TimerFires timer

fun step :: "action \<Rightarrow> app \<Rightarrow> app" where
  "step (DetectNetworkInfo info rtc) s = state_of (detectNetworkInfo info rtc s)"
| "step (SetupPeerConnection unavailable) s = state_of (setupPeerConnection unavailable s)"
| "step (HandleFiles picked) s = state_of (handleFiles picked s)"
| "step (RemoveFile fileId fetched) s = state_of (removeFile fileId fetched s)"
| "step (ConnectToHost input tested listed) s = state_of (connectToHost input tested listed s)"
| "step (LoadAvailableFiles fetched) s = state_of (loadAvailableFiles fetched s)"
| "step (DownloadFile fileId fileName userAgent fetched) s =
     state_of (downloadFile fileId fileName userAgent fetched s)"
| "step (DataChannelMessage parsed) s = state_of (handleDataChannelMessage parsed s)"
| "step (TimerFires t) s = fire t (s\<lparr>timers := remove1 t (timers s)\<rparr>)"

definition execute :: "action list \<Rightarrow> app \<Rightarrow> app" where
  "execute actions s = fold step actions s"

text \<open>An effect moves file content when it submits a file or saves a blob.\<close>

fun is_send :: "effect \<Rightarrow> bool" where
  "is_send (DataChannelSend d) = True"
| "is_send e = False"

fun submits_file :: "effect \<Rightarrow> bool" where
  "submits_file (Fetch method url form) = (\<exists>v \<in> set form. case snd v of FormFile f \<Rightarrow> True | FormText t \<Rightarrow> False)"
| "submits_file e = False"

fun is_upload_request :: "effect \<Rightarrow> bool" where
  "is_upload_request (Fetch method url form) = (method = ''POST'' \<and> url = ''/api/upload'')"
| "is_upload_request e = False"

text \<open>
  An effect is server mediated when it is no \<^verbatim>\<open>send\<close> on a data channel and, if it
  submits a file, it is the request \<^verbatim>\<open>POST /api/upload\<close>.
\<close>

definition server_mediated :: "effect \<Rightarrow> bool" where
  "server_mediated e = (\<not> is_send e \<and> (submits_file e \<longrightarrow> is_upload_request e))"

section \<open>The file registry server\<close>

text \<open>
  Modelled from the spec: the registry server (\<^verbatim>\<open>server.py\<close>, which the launchers start)
  is not among the sources; its catalog and the operations Upload, ListCatalog, Download
  and Remove follow sections 3, 4.1 and 6 of the specification. The registry assigns
  identifiers itself, from a counter, so that an identifier is never issued twice (an
  identifier that was removed has to stay unknown, section 8); the \<^verbatim>\<open>fileId\<close> form
  field of an upload is advisory and is not read (section 9).
\<close>

record shared_file =
  sf_id :: string
  sf_name :: string
  sf_mimeType :: string
  sf_size :: nat
  sf_content :: bytes

record registry =
  catalog :: "shared_file list"
  next_id :: nat
  capacity :: nat

datatype registry_error = UploadError | NotFoundError

record upload_request =
  up_filename :: "string option"
  up_body :: "bytes option"
  up_mimeType :: string
  up_fileId :: "string option"

definition empty_registry :: "nat \<Rightarrow> registry" where
  "empty_registry space = \<lparr>catalog = [], next_id = 0, capacity = space\<rparr>"

definition stored_bytes :: "registry \<Rightarrow> nat" where
  "stored_bytes r = sum_list (map sf_size (catalog r))"

text \<open>
  Modelled from the spec: Upload fails when the file name or the body is missing, when
  the body is empty and when the space is exhausted; otherwise it stores the file under
  a new identifier and returns it.
\<close>

definition Upload :: "upload_request \<Rightarrow> registry \<Rightarrow> registry_error + (string \<times> registry)" where
  "Upload q r =
     (case up_filename q of
        None \<Rightarrow> Inl UploadError
      | Some filename \<Rightarrow>
          (case up_body q of
             None \<Rightarrow> Inl UploadError
           | Some fileBytes \<Rightarrow>
               if fileBytes = [] then Inl UploadError
               else if capacity r < stored_bytes r + length fileBytes then Inl UploadError
               else
                 Inr (decimal (next_id r),
                      r\<lparr>catalog := catalog r @
                           [\<lparr>sf_id = decimal (next_id r), sf_name = filename,
                             sf_mimeType = up_mimeType q, sf_size = length fileBytes,
                             sf_content = fileBytes\<rparr>],
                        next_id := Suc (next_id r)\<rparr>)))"

text \<open>Modelled from the spec: ListCatalog returns the entries without content; it never fails.\<close>

definition ListCatalog :: "registry \<Rightarrow> file_entry list" where
  "ListCatalog r =
     map (\<lambda>f. \<lparr>fe_id = sf_id f, fe_name = sf_name f, fe_size = sf_size f,
                fe_type = sf_mimeType f\<rparr>) (catalog r)"

text \<open>
  Modelled from the spec: Download returns the stored file with its metadata and fails
  with NotFoundError on an unknown id.
\<close>

definition Download :: "string \<Rightarrow> registry \<Rightarrow> registry_error + shared_file" where
  "Download fileId r =
     (case find (\<lambda>f. sf_id f = fileId) (catalog r) of
        None \<Rightarrow> Inl NotFoundError
      | Some f \<Rightarrow> Inr f)"

text \<open>
  Modelled from the spec: Remove deletes the entry and fails with NotFoundError on an
  unknown id.
\<close>

definition Remove :: "string \<Rightarrow> registry \<Rightarrow> registry_error + registry" where
  "Remove fileId r =
     (if fileId \<in> sf_id ` set (catalog r)
      then Inr (r\<lparr>catalog := filter (\<lambda>f. sf_id f \<noteq> fileId) (catalog r)\<rparr>)
      else Inl NotFoundError)"

text \<open>
  Modelled from the spec: the calls that reach the registry, and the state each leaves
  behind; a call that fails leaves the registry as it was.
\<close>

datatype call = UploadCall upload_request | RemoveCall string | ListCall | DownloadCall string

fun serve :: "call \<Rightarrow> registry \<Rightarrow> registry" where
  "serve (UploadCall q) r = (case Upload q r of Inl e \<Rightarrow> r | Inr res \<Rightarrow> snd res)"
| "serve (RemoveCall fileId) r = (case Remove fileId r of Inl e \<Rightarrow> r | Inr r' \<Rightarrow> r')"
| "serve ListCall r = r"
| "serve (DownloadCall fileId) r = r"

definition serve_all :: "call list \<Rightarrow> registry \<Rightarrow> registry" where
  "serve_all calls r = fold serve calls r"

text \<open>The same call with the advisory \<^verbatim>\<open>fileId\<close> erased.\<close>

fun without_hint :: "call \<Rightarrow> call" where
  "without_hint (UploadCall q) = UploadCall (q\<lparr>up_fileId := None\<rparr>)"
| "without_hint c = c"

text \<open>An upload request is well formed when it has a file name and a non-empty body.\<close>

definition accepted :: "upload_request \<Rightarrow> bool" where
  "accepted q = (up_filename q \<noteq> None \<and> up_body q \<noteq> None \<and> up_body q \<noteq> Some [])"

definition request_size :: "upload_request \<Rightarrow> nat" where
  "request_size q = (case up_body q of None \<Rightarrow> 0 | Some b \<Rightarrow> length b)"

text \<open>
  The body of a response reaches the reader in chunks; \<open>cuts\<close> gives their sizes, and
  what is left after the last cut arrives as one chunk.
\<close>

fun chunk_bytes :: "nat list \<Rightarrow> bytes \<Rightarrow> bytes list" where
  "chunk_bytes cuts [] = []"
| "chunk_bytes [] (b # bs) = [b # bs]"
| "chunk_bytes (n # cuts) (b # bs) =
     (if n = 0 then chunk_bytes cuts (b # bs)
      else take n (b # bs) # chunk_bytes cuts (drop n (b # bs)))"

text \<open>
  Modelled from the spec: the response to \<^verbatim>\<open>GET /api/download/{id}\<close> carries the raw
  bytes and the headers Content-Length, Content-Type and Content-Disposition, or the
  status 404 for an unknown id.
\<close>

definition download_response :: "registry \<Rightarrow> string \<Rightarrow> nat list \<Rightarrow> response" where
  "download_response r fileId cuts =
     (case Download fileId r of
        Inl e \<Rightarrow>
          \<lparr>resp_ok = False, resp_status = 404, resp_headers = [], resp_json = None,
           resp_body = []\<rparr>
      | Inr f \<Rightarrow>
          \<lparr>resp_ok = True, resp_status = 200,
           resp_headers =
             [(''content-length'', decimal (sf_size f)),
              (''content-type'', sf_mimeType f),
              (''content-disposition'', ''attachment; filename='' @ sf_name f)],
           resp_json = None,
           resp_body = map Data (chunk_bytes cuts (sf_content f))\<rparr>)"

text \<open>
  Modelled from the spec: the multipart form of \<^verbatim>\<open>POST /api/upload\<close> carries the
  fields \<^verbatim>\<open>file\<close> and \<^verbatim>\<open>fileId\<close>; the file part gives the name, the declared type
  and the body, the \<^verbatim>\<open>fileId\<close> field is the advisory identifier.
\<close>

definition upload_request_of :: "(string \<times> form_value) list \<Rightarrow> upload_request" where
  "upload_request_of form =
     \<lparr>up_filename =
        (case map_of form ''file'' of Some (FormFile f) \<Rightarrow> Some (file_name f) | _ \<Rightarrow> None),
      up_body =
        (case map_of form ''file'' of Some (FormFile f) \<Rightarrow> Some (file_content f) | _ \<Rightarrow> None),
      up_mimeType =
        (case map_of form ''file'' of Some (FormFile f) \<Rightarrow> file_type f | _ \<Rightarrow> []),
      up_fileId =
        (case map_of form ''fileId'' of Some (FormText t) \<Rightarrow> Some t | _ \<Rightarrow> None)\<rparr>"

text \<open>
  The invariant of the registry: every identifier in the catalog was produced from the
  counter of the registry, the identifiers are pairwise distinct, and the recorded size of
  a file is the length of its content.
\<close>

definition issued_by_registry :: "registry \<Rightarrow> bool" where
  "issued_by_registry r = (\<forall>f \<in> set (catalog r). \<exists>n < next_id r. sf_id f = decimal n)"

definition consistent :: "registry \<Rightarrow> bool" where
  "consistent r =
     (issued_by_registry r \<and> distinct (map sf_id (catalog r)) \<and>
      (\<forall>f \<in> set (catalog r). sf_size f = length (sf_content f)))"

section \<open>Evaluation rules\<close>

declare decimal.simps [simp del] floor_log.simps [simp del]

lemma decimal_digit: "n < 10 \<Longrightarrow> decimal n = [digit_char n]"
  by (subst decimal.simps) simp

lemma decimal_step:
  "\<not> n < 10 \<Longrightarrow> decimal n = decimal (n div 10) @ [digit_char (n mod 10)]"
  by (subst decimal.simps) simp

lemma floor_log_base: "k < 2 \<or> n < k \<Longrightarrow> floor_log k n = 0"
  by (subst floor_log.simps) simp

lemma floor_log_step:
  "\<not> (k < 2 \<or> n < k) \<Longrightarrow> floor_log k n = Suc (floor_log k (n div k))"
  by (subst floor_log.simps) simp

lemmas js_eval = decimal_digit decimal_step floor_log_base floor_log_step digit_char_def

lemmas format_eval =
  formatFileSize_def log_index_def toFixed2_def number_text_def sizes_def js_eval

lemmas app_defs = emit_def log_line_def showToast_def updateNetworkStatus_def
  showConnectionStatus_def updateShareInfo_def updateFileList_def


section \<open>formatFileSize: results\<close>

lemma formatFileSize_zero: "formatFileSize 0 = ''0 Bytes''"
  by (simp add: formatFileSize_def)

lemma formatFileSize_examples:
  "formatFileSize 1023 = ''1023 Bytes''"
  "formatFileSize 1536 = ''1.5 KB''"
  "formatFileSize 2048 = ''2 KB''"
  "formatFileSize 1048575 = ''1024 KB''"
  "formatFileSize 524288000 = ''500 MB''"
  by (simp_all add: format_eval)

text \<open>
  Up to \<open>1024^5 - 4\<close> bytes the index stays inside the table: the text is a number with
  at most two decimals, a blank and one of the five units. At the three byte counts below
  \<open>1024^5\<close> the index is already 5.
\<close>

lemma floor_log_bound: "2 \<le> k \<Longrightarrow> n < k ^ Suc m \<Longrightarrow> floor_log k n \<le> m"
proof (induction m arbitrary: n)
  case 0
  then show ?case by (simp add: floor_log_base)
next
  case (Suc m)
  show ?case
  proof (cases "n < k")
    case True
    then show ?thesis by (simp add: floor_log_base)
  next
    case False
    from Suc.prems(2) have "n < k ^ Suc m * k" by (simp add: mult.commute)
    then have "n div k < k ^ Suc m" by (rule less_mult_imp_div_less)
    from Suc.IH [OF Suc.prems(1) this] False Suc.prems(1) show ?thesis
      by (simp add: floor_log_step)
  qed
qed

lemma formatFileSize_within_table:
  assumes "0 < bytes" and "bytes + 3 < 1024 ^ 5"
  shows "log_index bytes < length sizes \<and>
         formatFileSize bytes =
           number_text (toFixed2 bytes (1024 ^ log_index bytes)) @ '' '' @
           sizes ! log_index bytes \<and>
         sizes ! log_index bytes \<in> {''Bytes'', ''KB'', ''MB'', ''GB'', ''TB''}"
proof -
  from assms(2) have idx: "log_index bytes = floor_log 1024 bytes"
    by (simp add: log_index_def)
  from assms(2) have "floor_log 1024 bytes \<le> 4"
    using floor_log_bound [of 1024 bytes 4] by simp
  with idx have i: "log_index bytes < length sizes" by (simp add: sizes_def)
  have units: "set sizes = {''Bytes'', ''KB'', ''MB'', ''GB'', ''TB''}"
    by (simp add: sizes_def)
  from nth_mem [OF i]
  have unit: "sizes ! log_index bytes \<in> {''Bytes'', ''KB'', ''MB'', ''GB'', ''TB''}"
    unfolding units .
  from i assms(1) have "formatFileSize bytes =
           number_text (toFixed2 bytes (1024 ^ log_index bytes)) @ '' '' @
           sizes ! log_index bytes"
    by (simp add: formatFileSize_def)
  with i unit show ?thesis by blast
qed

lemma formatFileSize_below_pebibyte:
  "formatFileSize (1024 ^ 5 - 4) = ''1024 TB''"
  "formatFileSize (1024 ^ 5 - 1) = ''1 undefined''"
  by (simp_all add: format_eval)

lemma number_text_decimals:
  "\<exists>fraction. number_text h = decimal (h div 100) @ fraction \<and> length fraction \<le> 3"
  by (simp add: number_text_def)

text \<open>
  C10. \<^verbatim>\<open>formatFileSize\<close> is meant to print a number with at most two decimals and one
  of the units Bytes, KB, MB, GB, TB. The table has five entries and the index is not
  clamped: at \<open>2^55\<close> bytes the index is 5, the table lookup yields \<^verbatim>\<open>undefined\<close>, and
  the text returned is \<^verbatim>\<open>32 undefined\<close>.
\<close>

theorem formatFileSize_past_table: "formatFileSize (2 ^ 55) = ''32 undefined''"
  by (simp add: format_eval)

section \<open>Request addresses: results\<close>

lemma endsWith_slash: "endsWith s ''/'' \<longleftrightarrow> s \<noteq> [] \<and> last s = CHR ''/''"
proof (cases s rule: rev_cases)
  case Nil
  then show ?thesis by (simp add: endsWith_def)
next
  case (snoc ys y)
  then show ?thesis by (auto simp: endsWith_def)
qed

text \<open>
  C8. For a host address \<open>b\<close> that does not end with a slash, the address \<open>b\<close> and the
  address \<open>b/\<close> give the same request addresses, in which \<open>b\<close> and the api path are
  joined by exactly one slash: for the connection test, the catalog fetch and the download.
\<close>

theorem request_url_one_slash:
  assumes "\<not> endsWith b ''/''" and "b \<noteq> []"
  shows "testUrl (b @ ''/'') = b @ ''/api/files'' \<and> testUrl b = b @ ''/api/files'' \<and>
         filesUrl (Some (b @ ''/'')) = b @ ''/api/files'' \<and>
         filesUrl (Some b) = b @ ''/api/files'' \<and>
         downloadUrl (Some (b @ ''/'')) fileId = b @ ''/api/download/'' @ fileId \<and>
         downloadUrl (Some b) fileId = b @ ''/api/download/'' @ fileId"
  using assms
  by (simp add: testUrl_def filesUrl_def downloadUrl_def truthy_def endsWith_slash)

theorem request_url_one_slash_witness:
  "testUrl ''http://10.0.0.5:8080/'' = ''http://10.0.0.5:8080/api/files'' \<and>
   testUrl ''http://10.0.0.5:8080'' = ''http://10.0.0.5:8080/api/files'' \<and>
   filesUrl (Some ''http://10.0.0.5:8080/'') = ''http://10.0.0.5:8080/api/files'' \<and>
   filesUrl (Some ''http://10.0.0.5:8080'') = ''http://10.0.0.5:8080/api/files'' \<and>
   downloadUrl (Some ''http://10.0.0.5:8080/'') ''k3x9'' =
     ''http://10.0.0.5:8080/api/download/k3x9'' \<and>
   downloadUrl (Some ''http://10.0.0.5:8080'') ''k3x9'' =
     ''http://10.0.0.5:8080/api/download/k3x9''"
  using request_url_one_slash [of "''http://10.0.0.5:8080''" "''k3x9''"]
  by (simp add: endsWith_slash)

section \<open>Network detection: results\<close>

lemma gather_no_candidate:
  "(\<forall>c. Some c \<in> set events \<longrightarrow> match_ipv4 c = None) \<Longrightarrow>
   gather events s = Returned (detectionTimeout s)"
  by (induction events s rule: gather.induct) auto

lemma detectionTimeout_result:
  "serverUrl (detectionTimeout s) = Some (localhostUrl s) \<and>
   networkStatus (detectionTimeout s) = (''Using localhost - network detection failed'', ''warning'') \<and>
   timers (detectionTimeout s) = timers s"
  by (simp add: detectionTimeout_def app_defs localhostUrl_def)

lemma detectionFailed_result:
  "serverUrl (detectionFailed e s) = Some (localhostUrl s) \<and>
   networkStatus (detectionFailed e s) = (''Network detection failed - using localhost'', ''error'') \<and>
   timers (detectionFailed e s) = timers s"
  by (simp add: detectionFailed_def app_defs localhostUrl_def)

lemma localhostUrl_frame:
  "localhostUrl (emit x s) = localhostUrl s" "localhostUrl (log_line m s) = localhostUrl s"
  by (simp_all add: localhostUrl_def app_defs)

lemma timers_frame:
  "timers (emit x s) = timers s" "timers (log_line m s) = timers s"
  by (simp_all add: app_defs)

text \<open>A host candidate with an address is taken as the address of the server.\<close>

lemma match_ipv4_example:
  "match_ipv4 ''candidate:1 1 udp 2113937151 192.168.1.7 54321 typ host'' = Some ''192.168.1.7''"
  by (simp add: is_digit_def eval_nat_numeral)

lemma detection_example:
  "serverUrl (state_of (detectNetworkInfo (RejectedWith ''Failed to fetch'')
     (Gathering [Some ''candidate:1 1 udp 2113937151 192.168.1.7 54321 typ host'']) new_app))
   = Some ''http://192.168.1.7:8080''"
  by (simp add: detectNetworkInfo_def webrtcFallback_def match_ipv4_example app_defs new_app_def
      js_eval del: match_ipv4.simps)

lemma webrtcFallback_soft:
  assumes "rtc = NoRtc e' \<or> rtc = OfferFails e' \<or>
           (\<exists>events. rtc = Gathering events \<and> (\<forall>c. Some c \<in> set events \<longrightarrow> match_ipv4 c = None))"
  shows "\<exists>s'. webrtcFallback rtc s = Returned s' \<and> serverUrl s' = Some (localhostUrl s) \<and>
           (networkStatus s' = (''Using localhost - network detection failed'', ''warning'') \<or>
            networkStatus s' = (''Network detection failed - using localhost'', ''error'')) \<and>
           timers s' = timers s"
  using assms
  by (auto simp: localhostUrl_frame timers_frame webrtcFallback_def gather_no_candidate detectionTimeout_result detectionFailed_result)

text \<open>
  A reply with status 200 and a JSON body is trusted: its \<^verbatim>\<open>server_url\<close> field becomes
  the server address, also when the field is missing.
\<close>

lemma network_info_reply_taken_as_is:
  "resp_ok r \<Longrightarrow> resp_json r = Some networkInfo \<Longrightarrow>
   detectNetworkInfo (Fulfilled r) rtc s =
     Returned (updateNetworkStatus ''Connected to local network'' ''success''
                 ((emit (Fetch ''GET'' ''/api/network-info'' []) s)
                  \<lparr>serverUrl := j_server_url networkInfo\<rparr>))"
  by (simp add: detectNetworkInfo_def)

lemma gather_not_raised: "\<not> is_raised (gather events s)"
  by (induction events s rule: gather.induct) (simp_all split: option.splits)

lemma webrtcFallback_not_raised: "\<not> is_raised (webrtcFallback rtc s)"
  by (cases rtc) (simp_all add: webrtcFallback_def gather_not_raised)

lemma detectNetworkInfo_not_raised: "\<not> is_raised (detectNetworkInfo info rtc s)"
  by (cases info)
     (simp_all add: detectNetworkInfo_def webrtcFallback_not_raised split: option.splits)

text \<open>
  C6, as stated, fails: the request for \<^verbatim>\<open>/api/network-info\<close> carries no timeout, and
  the WebRTC fallback with its five-second timer starts only after that request has
  settled. While the request stays unanswered no address is determined, yet
  \<^verbatim>\<open>detectNetworkInfo\<close> stays suspended: the server address is still empty and no
  warning is shown.
\<close>

theorem detection_pending_without_fallback:
  "is_stuck (detectNetworkInfo Unsettled (Gathering []) new_app) \<and>
   serverUrl (state_of (detectNetworkInfo Unsettled (Gathering []) new_app)) = Some '''' \<and>
   networkStatus (state_of (detectNetworkInfo Unsettled (Gathering []) new_app)) = ('''', '''')"
  by (simp add: detectNetworkInfo_def app_defs new_app_def)

text \<open>
  C6, amended. Network detection fails soft once the request for
  \<^verbatim>\<open>/api/network-info\<close> has settled. When that request fails (it is rejected, answered
  with an error status, or its body is not JSON) and the WebRTC fallback finds no address
  (it throws, or no ICE candidate with a dotted quad arrives before the timer fires),
  \<^verbatim>\<open>detectNetworkInfo\<close> returns normally, the server address is the localhost address
  with the server port, and the status line shows a message that localhost is used: as a
  warning after the timeout, as an error after an exception. In no environment does
  \<^verbatim>\<open>detectNetworkInfo\<close> throw. While the request does not settle, detection stays
  suspended, with the server address and the status line unchanged.
\<close>

theorem detection_fails_soft:
  assumes "info = RejectedWith e \<or> (\<exists>r. info = Fulfilled r \<and> (\<not> resp_ok r \<or> resp_json r = None))"
    and "rtc = NoRtc e' \<or> rtc = OfferFails e' \<or>
         (\<exists>events. rtc = Gathering events \<and> (\<forall>c. Some c \<in> set events \<longrightarrow> match_ipv4 c = None))"
  shows "(\<exists>s'. detectNetworkInfo info rtc s = Returned s' \<and>
           serverUrl s' = Some (''http://localhost:'' @ decimal (serverPort s)) \<and>
           (networkStatus s' = (''Using localhost - network detection failed'', ''warning'') \<or>
            networkStatus s' = (''Network detection failed - using localhost'', ''error'')) \<and>
           timers s' = timers s) \<and>
         \<not> is_raised (detectNetworkInfo any_info any_rtc s) \<and>
         is_stuck (detectNetworkInfo Unsettled any_rtc s) \<and>
         serverUrl (state_of (detectNetworkInfo Unsettled any_rtc s)) = serverUrl s \<and>
         networkStatus (state_of (detectNetworkInfo Unsettled any_rtc s)) = networkStatus s"
proof -
  have key: "\<exists>s'. webrtcFallback rtc s0 = Returned s' \<and>
           serverUrl s' = Some (''http://localhost:'' @ decimal (serverPort s)) \<and>
           (networkStatus s' = (''Using localhost - network detection failed'', ''warning'') \<or>
            networkStatus s' = (''Network detection failed - using localhost'', ''error'')) \<and>
           timers s' = timers s"
    if "localhostUrl s0 = localhostUrl s" and "timers s0 = timers s" for s0
    using webrtcFallback_soft [OF assms(2), of s0] that
    by (simp add: localhostUrl_frame timers_frame localhostUrl_def)
  from assms(1) consider "info = RejectedWith e"
    | r where "info = Fulfilled r" "\<not> resp_ok r"
    | r where "info = Fulfilled r" "resp_ok r" "resp_json r = None"
    by blast
  then have soft: "\<exists>s'. detectNetworkInfo info rtc s = Returned s' \<and>
           serverUrl s' = Some (''http://localhost:'' @ decimal (serverPort s)) \<and>
           (networkStatus s' = (''Using localhost - network detection failed'', ''warning'') \<or>
            networkStatus s' = (''Network detection failed - using localhost'', ''error'')) \<and>
           timers s' = timers s"
  proof cases
    case 1
    then have "detectNetworkInfo info rtc s =
        webrtcFallback rtc (log_line ''Server network info not available, using WebRTC fallback''
               (emit (Fetch ''GET'' ''/api/network-info'' []) s))"
      by (simp add: detectNetworkInfo_def)
    then show ?thesis using key by (simp add: localhostUrl_frame timers_frame)
  next
    case 2
    then have "detectNetworkInfo info rtc s =
        webrtcFallback rtc (emit (Fetch ''GET'' ''/api/network-info'' []) s)"
      by (simp add: detectNetworkInfo_def)
    then show ?thesis using key by (simp add: localhostUrl_frame timers_frame)
  next
    case 3
    then have "detectNetworkInfo info rtc s =
        webrtcFallback rtc (log_line ''Server network info not available, using WebRTC fallback''
               (emit (Fetch ''GET'' ''/api/network-info'' []) s))"
      by (simp add: detectNetworkInfo_def)
    then show ?thesis using key by (simp add: localhostUrl_frame timers_frame)
  qed
  have pending: "is_stuck (detectNetworkInfo Unsettled any_rtc s) \<and>
         serverUrl (state_of (detectNetworkInfo Unsettled any_rtc s)) = serverUrl s \<and>
         networkStatus (state_of (detectNetworkInfo Unsettled any_rtc s)) = networkStatus s"
    by (simp add: detectNetworkInfo_def app_defs)
  from soft pending detectNetworkInfo_not_raised [of any_info any_rtc s]
  show ?thesis by blast
qed

lemma no_quad: "match_ipv4 ''candidate:1 1 udp 2113937151 3f1c8a2e.local 54321 typ host'' = None"
  by (simp add: is_digit_def eval_nat_numeral)

theorem detection_fails_soft_witness:
  "(\<exists>s'. detectNetworkInfo (RejectedWith ''Failed to fetch'')
           (Gathering [Some ''candidate:1 1 udp 2113937151 3f1c8a2e.local 54321 typ host'', None]) new_app
         = Returned s' \<and>
         serverUrl s' = Some ''http://localhost:8080'' \<and>
         networkStatus s' = (''Using localhost - network detection failed'', ''warning'') \<and>
         timers s' = []) \<and>
   is_stuck (detectNetworkInfo Unsettled
           (Gathering [Some ''candidate:1 1 udp 2113937151 3f1c8a2e.local 54321 typ host'', None]) new_app)"
  using detection_fails_soft [of "RejectedWith ''Failed to fetch''" "''Failed to fetch''"
      "Gathering [Some ''candidate:1 1 udp 2113937151 3f1c8a2e.local 54321 typ host'', None]"
      "''none''" new_app
      "RejectedWith ''Failed to fetch''"
      "Gathering [Some ''candidate:1 1 udp 2113937151 3f1c8a2e.local 54321 typ host'', None]"]
  by (simp add: no_quad new_app_def js_eval detectNetworkInfo_def webrtcFallback_def
      detectionTimeout_def localhostUrl_def app_defs del: match_ipv4.simps)

section \<open>Removing a shared file: results\<close>

text \<open>
  C9. \<^verbatim>\<open>removeFile\<close> deletes the entry from the local Map before the request to the
  server is sent, whatever becomes of that request: the id is absent from the Map in the
  state reached in every case, and when the request settles (fulfilled with any status, or
  rejected) the method returns with exactly that entry removed and the rendered list
  without it.
\<close>

theorem removeFile_deletes_locally:
  "fileId \<notin> fst ` set (files (state_of (removeFile fileId fetched s))) \<and>
   (fetched \<noteq> Unsettled \<longrightarrow>
      (\<exists>s'. removeFile fileId fetched s = Returned s' \<and>
            files s' = map_delete fileId (files s) \<and>
            fileId \<notin> fst ` set (fileList s')))"
proof (cases fetched)
  case (Fulfilled r)
  then show ?thesis
    by (auto simp: removeFile_def await_fetch_def app_defs map_delete_def createFileItem_def)
next
  case (RejectedWith e)
  then show ?thesis
    by (auto simp: removeFile_def await_fetch_def app_defs map_delete_def createFileItem_def)
next
  case Unsettled
  then show ?thesis
    by (auto simp: removeFile_def await_fetch_def app_defs map_delete_def)
qed

theorem removeFile_deletes_locally_witness:
  "''k3x9'' \<notin> fst ` set (files (state_of (removeFile ''k3x9'' (RejectedWith ''Failed to fetch'')
       (new_app\<lparr>files := [(''k3x9'', \<lparr>file_name = ''a.txt'', file_type = ''text/plain'', file_content = ''hi''\<rparr>)]\<rparr>)))) \<and>
   (\<exists>s'. removeFile ''k3x9'' (RejectedWith ''Failed to fetch'')
       (new_app\<lparr>files := [(''k3x9'', \<lparr>file_name = ''a.txt'', file_type = ''text/plain'', file_content = ''hi''\<rparr>)]\<rparr>) = Returned s' \<and>
       files s' = [] \<and> ''k3x9'' \<notin> fst ` set (fileList s'))"
  using removeFile_deletes_locally [of "''k3x9''" "RejectedWith ''Failed to fetch''"
     "new_app\<lparr>files := [(''k3x9'', \<lparr>file_name = ''a.txt'', file_type = ''text/plain'', file_content = ''hi''\<rparr>)]\<rparr>"]
  by (simp add: new_app_def map_delete_def)

section \<open>Requests of the client: results\<close>

lemma pump_data:
  "pump fileId tot loaded blob (map Data cs @ evs) s =
   pump fileId tot (loaded + length (concat cs)) (blob @ concat cs) evs
     (s\<lparr>progressText := progressText s @ reports fileId tot loaded cs\<rparr>)"
proof (induction cs arbitrary: loaded blob s)
  case Nil
  show ?case by simp
next
  case (Cons c cs)
  show ?case by (simp add: Cons.IH add.assoc)
qed

lemma not_raised_try_catch:
  "\<forall>e s. \<not> is_raised (h e s) \<Longrightarrow> \<not> is_raised (try_catch x h)"
  by (cases x) simp_all

lemma not_raised_with_blob:
  "\<forall>b s. \<not> is_raised (k b s) \<Longrightarrow> \<forall>e s. \<not> is_raised (h e s) \<Longrightarrow>
   \<not> is_raised (try_catch (with_blob x k) h)"
  by (cases x) (auto simp: not_raised_try_catch)

lemma lower_desktop_agent:
  "toLowerCase ''Mozilla/5.0 (X11; Linux x86_64)'' = ''mozilla/5.0 (x11; linux x86_64)''"
  by (simp add: toLowerCase_def lower_char_def)

lemma desktop_agent: "\<not> isMobile ''Mozilla/5.0 (X11; Linux x86_64)''"
  unfolding isMobile_def lower_desktop_agent by simp

lemma lower_iphone_agent: "toLowerCase ''Mozilla/5.0 (iPhone)'' = ''mozilla/5.0 (iphone)''"
  by (simp add: toLowerCase_def lower_char_def)

lemma iphone_agent: "isMobile ''Mozilla/5.0 (iPhone)''"
  unfolding isMobile_def lower_iphone_agent by simp

text \<open>
  C4, as stated, fails: no request carries a timeout. With a host that accepts the
  connection and never answers, \<^verbatim>\<open>connectToHost\<close> stays suspended and the status line
  keeps showing \<^verbatim>\<open>Connecting...\<close>.
\<close>

theorem connect_hangs_without_timeout:
  "is_stuck (connectToHost ''http://192.168.1.20:8080'' Unsettled Unsettled new_app) \<and>
   connectionStatus (state_of (connectToHost ''http://192.168.1.20:8080'' Unsettled Unsettled new_app))
     = (''Connecting...'', ''info'')"
  by (simp add: connectToHost_def trim_def is_space_def await_fetch_def app_defs new_app_def)

text \<open>
  C4, amended. The requests of the client are plain \<^verbatim>\<open>fetch\<close> calls without a timeout.
  A request that is rejected surfaces a failure (the connection status, or an error toast
  for a download whose stream breaks), but a connection test, a catalog fetch or a download
  whose request never settles, and a download whose body stalls, stay suspended with no
  failure shown.
\<close>

theorem requests_without_timeout:
  assumes "trim input \<noteq> []" and "\<not> isMobile userAgent" and "resp_ok r"
  shows "is_stuck (connectToHost input Unsettled listed s) \<and>
         connectionStatus (state_of (connectToHost input Unsettled listed s)) = (''Connecting...'', ''info'') \<and>
         is_stuck (loadAvailableFiles Unsettled s) \<and>
         is_stuck (downloadFile fileId fileName userAgent Unsettled s) \<and>
         is_stuck (downloadFile fileId fileName userAgent
                     (Fulfilled (r\<lparr>resp_body := map Data cs @ Stall # rest\<rparr>)) s) \<and>
         toasts (state_of (downloadFile fileId fileName userAgent
                     (Fulfilled (r\<lparr>resp_body := map Data cs @ Stall # rest\<rparr>)) s)) = toasts s \<and>
         (\<exists>s'. connectToHost input (RejectedWith e) listed s = Returned s' \<and>
               connectionStatus s' = (''Connection failed: '' @ e, ''error'')) \<and>
         (\<exists>s'. downloadFile fileId fileName userAgent
                  (Fulfilled (r\<lparr>resp_body := map Data cs @ Abort e # rest\<rparr>)) s = Returned s' \<and>
               toasts s' = toasts s @ [(''Failed to download '' @ fileName, ''error'')])"
  using assms
  by (simp add: connectToHost_def loadAvailableFiles_def downloadFile_def await_fetch_def
      pump_data app_defs)

theorem requests_without_timeout_witness:
  "is_stuck (connectToHost ''http://10.0.0.5:8080'' Unsettled Unsettled new_app) \<and>
   is_stuck (loadAvailableFiles Unsettled new_app) \<and>
   is_stuck (downloadFile ''k3x9'' ''a.txt'' ''Mozilla/5.0 (X11; Linux x86_64)'' Unsettled new_app) \<and>
   is_stuck (downloadFile ''k3x9'' ''a.txt'' ''Mozilla/5.0 (X11; Linux x86_64)''
     (Fulfilled \<lparr>resp_ok = True, resp_status = 200, resp_headers = [(''content-length'', ''4'')],
                  resp_json = None, resp_body = [Data ''ab'', Stall]\<rparr>) new_app) \<and>
   (\<exists>s'. connectToHost ''http://10.0.0.5:8080'' (RejectedWith ''Failed to fetch'') Unsettled new_app = Returned s' \<and>
         connectionStatus s' = (''Connection failed: Failed to fetch'', ''error'')) \<and>
   (\<exists>s'. downloadFile ''k3x9'' ''a.txt'' ''Mozilla/5.0 (X11; Linux x86_64)''
     (Fulfilled \<lparr>resp_ok = True, resp_status = 200, resp_headers = [(''content-length'', ''4'')],
                  resp_json = None, resp_body = [Data ''ab'', Abort ''network error'']\<rparr>) new_app = Returned s' \<and>
         toasts s' = [(''Failed to download a.txt'', ''error'')])"
proof -
  have h1: "trim ''http://10.0.0.5:8080'' \<noteq> []"
    by (simp add: trim_def is_space_def)
  have h2: "\<not> isMobile ''Mozilla/5.0 (X11; Linux x86_64)''"
    by (rule desktop_agent)
  have h3: "resp_ok \<lparr>resp_ok = True, resp_status = 200, resp_headers = [(''content-length'', ''4'')],
                  resp_json = None, resp_body = []\<rparr>"
    by simp
  show ?thesis
    using requests_without_timeout [OF h1 h2 h3, of Unsettled new_app "''k3x9''" "''a.txt''"
        "[''ab'']" "[]" "''Failed to fetch''"]
      requests_without_timeout [OF h1 h2 h3, of Unsettled new_app "''k3x9''" "''a.txt''"
        "[''ab'']" "[]" "''network error''"]
    by (simp add: new_app_def)
qed

section \<open>Failures of requests: results\<close>

text \<open>
  C5, as stated, fails on a phone: there \<^verbatim>\<open>downloadFile\<close> issues no \<^verbatim>\<open>fetch\<close> but
  navigates to the download address, so a failing download is never seen by the script.
  The only toasts are the announcement and, two seconds later, the note that the download
  started.
\<close>

theorem mobile_download_failure_unreported:
  "toasts (state_of (downloadFile ''k3x9'' ''photo.jpg'' ''Mozilla/5.0 (iPhone)''
             (RejectedWith ''Failed to fetch'')
             (new_app\<lparr>currentHostUrl := Some ''http://192.168.1.20:8080''\<rparr>)))
     = [(''Starting download: photo.jpg'', ''info'')] \<and>
   toasts (fire (DownloadStartedToast ''photo.jpg'')
            (state_of (downloadFile ''k3x9'' ''photo.jpg'' ''Mozilla/5.0 (iPhone)''
               (RejectedWith ''Failed to fetch'')
               (new_app\<lparr>currentHostUrl := Some ''http://192.168.1.20:8080''\<rparr>))))
     = [(''Starting download: photo.jpg'', ''info''),
        (''photo.jpg download started! Check your downloads.'', ''success'')] \<and>
   effects (state_of (downloadFile ''k3x9'' ''photo.jpg'' ''Mozilla/5.0 (iPhone)''
             (RejectedWith ''Failed to fetch'')
             (new_app\<lparr>currentHostUrl := Some ''http://192.168.1.20:8080''\<rparr>)))
     = [Navigate ''http://192.168.1.20:8080/api/download/k3x9'']"
  by (simp add: downloadFile_def iphone_agent app_defs new_app_def downloadUrl_def truthy_def
      endsWith_def)

text \<open>
  C5, amended. On the paths that use \<^verbatim>\<open>fetch\<close> every failure is caught and shown
  without blocking the page: \<^verbatim>\<open>uploadFileToServer\<close>, \<^verbatim>\<open>loadAvailableFiles\<close> and
  \<^verbatim>\<open>downloadFile\<close> never throw; a rejected or refused upload ends with a toast naming
  the file, a catalog fetch that is rejected or whose body is not JSON ends with the error
  paragraph in the list of available files, and on a desktop browser a download that is
  rejected, refused or broken in mid-stream ends with the toast
  \<^verbatim>\<open>Failed to download\<close>. After each the method has returned, so it can be called again.
\<close>

theorem failures_are_caught:
  assumes "\<not> isMobile userAgent"
  shows "\<not> is_raised (uploadFileToServer fileId file fetched s) \<and>
         \<not> is_raised (loadAvailableFiles fetched s) \<and>
         \<not> is_raised (downloadFile fileId fileName agent fetched s) \<and>
         (fetched = RejectedWith e \<or> (\<exists>r. fetched = Fulfilled r \<and> \<not> resp_ok r) \<longrightarrow>
            (\<exists>s'. uploadFileToServer fileId file fetched s = Returned s' \<and>
                  (toasts s' = toasts s @ [(''Error uploading '' @ file_name file, ''success'')] \<or>
                   toasts s' = toasts s @ [(''Failed to upload '' @ file_name file, ''success'')]))) \<and>
         (fetched = RejectedWith e \<or> (\<exists>r. fetched = Fulfilled r \<and> resp_json r = None) \<longrightarrow>
            (\<exists>s'. loadAvailableFiles fetched s = Returned s' \<and>
                  availableFiles s' = availableFiles s @ [LoadError])) \<and>
         (fetched = RejectedWith e \<or>
          (\<exists>r. fetched = Fulfilled r \<and>
               (\<not> resp_ok r \<or> (\<exists>cs e' rest. resp_body r = map Data cs @ Abort e' # rest))) \<longrightarrow>
            (\<exists>s'. downloadFile fileId fileName userAgent fetched s = Returned s' \<and>
                  toasts s' = toasts s @ [(''Failed to download '' @ fileName, ''error'')]))"
proof -
  have up: "\<not> is_raised (uploadFileToServer fileId file fetched s)"
    by (cases fetched) (simp_all add: uploadFileToServer_def await_fetch_def)
  have ld: "\<not> is_raised (loadAvailableFiles fetched s)"
    by (cases fetched) (simp_all add: loadAvailableFiles_def await_fetch_def split: option.splits)
  have dl: "\<not> is_raised (downloadFile fileId fileName agent fetched s)"
    unfolding downloadFile_def
    by (cases fetched) (simp_all add: await_fetch_def not_raised_with_blob)
  have up_fail: "fetched = RejectedWith e \<or> (\<exists>r. fetched = Fulfilled r \<and> \<not> resp_ok r) \<longrightarrow>
            (\<exists>s'. uploadFileToServer fileId file fetched s = Returned s' \<and>
                  (toasts s' = toasts s @ [(''Error uploading '' @ file_name file, ''success'')] \<or>
                   toasts s' = toasts s @ [(''Failed to upload '' @ file_name file, ''success'')]))"
    by (auto simp: uploadFileToServer_def await_fetch_def app_defs)
  have ld_fail: "fetched = RejectedWith e \<or> (\<exists>r. fetched = Fulfilled r \<and> resp_json r = None) \<longrightarrow>
            (\<exists>s'. loadAvailableFiles fetched s = Returned s' \<and>
                  availableFiles s' = availableFiles s @ [LoadError])"
    by (auto simp: loadAvailableFiles_def await_fetch_def app_defs)
  have dl_fail: "fetched = RejectedWith e \<or>
          (\<exists>r. fetched = Fulfilled r \<and>
               (\<not> resp_ok r \<or> (\<exists>cs e' rest. resp_body r = map Data cs @ Abort e' # rest))) \<longrightarrow>
            (\<exists>s'. downloadFile fileId fileName userAgent fetched s = Returned s' \<and>
                  toasts s' = toasts s @ [(''Failed to download '' @ fileName, ''error'')])"
    using assms
    by (auto simp: downloadFile_def await_fetch_def pump_data app_defs)
  from up ld dl up_fail ld_fail dl_fail show ?thesis by blast
qed

theorem failures_are_caught_witness:
  "(\<exists>s'. uploadFileToServer ''k3x9''
            \<lparr>file_name = ''a.txt'', file_type = ''text/plain'', file_content = ''hi''\<rparr>
            (RejectedWith ''Failed to fetch'') new_app = Returned s' \<and>
         toasts s' = [(''Error uploading a.txt'', ''success'')]) \<and>
   (\<exists>s'. loadAvailableFiles (RejectedWith ''Failed to fetch'') new_app = Returned s' \<and>
         availableFiles s' = [LoadError]) \<and>
   (\<exists>s'. downloadFile ''k3x9'' ''a.txt'' ''Mozilla/5.0 (X11; Linux x86_64)''
            (RejectedWith ''Failed to fetch'') new_app = Returned s' \<and>
         toasts s' = [(''Failed to download a.txt'', ''error'')])"
proof -
  have h: "\<not> isMobile ''Mozilla/5.0 (X11; Linux x86_64)''"
    by (rule desktop_agent)
  show ?thesis
    using failures_are_caught [OF h, of "''k3x9''"
        "\<lparr>file_name = ''a.txt'', file_type = ''text/plain'', file_content = ''hi''\<rparr>"
        "RejectedWith ''Failed to fetch''" new_app "''a.txt''" "''Mozilla/5.0 (X11; Linux x86_64)''"
        "''Failed to fetch''"]
    by (simp add: new_app_def uploadFileToServer_def await_fetch_def app_defs)
qed

section \<open>The peer-to-peer channel: results\<close>

lemma effects_frame:
  "effects (log_line m s) = effects s"
  "effects (showToast m t s) = effects s"
  "effects (updateNetworkStatus m t s) = effects s"
  "effects (showConnectionStatus m t s) = effects s"
  "effects (updateShareInfo s) = effects s"
  "effects (updateFileList s) = effects s"
  "effects (emit e s) = effects s @ [e]"
  by (simp_all add: app_defs)

lemma mediated_upload:
  "list_all server_mediated (effects s) \<Longrightarrow>
   list_all server_mediated (effects (state_of (uploadFileToServer fileId file fetched s)))"
  by (cases fetched)
     (simp_all add: effects_frame uploadFileToServer_def await_fetch_def server_mediated_def)

lemma mediated_handleFiles:
  "list_all server_mediated (effects s) \<Longrightarrow>
   list_all server_mediated (effects (state_of (handleFiles picked s)))"
proof (induction picked s rule: handleFiles.induct)
  case (1 s)
  then show ?case by (simp add: effects_frame)
next
  case (2 f random36 fetched rest s)
  let ?s0 = "s\<lparr>files := map_set (generateId random36) f (files s)\<rparr>"
  let ?u = "uploadFileToServer (generateId random36) f fetched ?s0"
  have m: "list_all server_mediated (effects (state_of ?u))"
    using "2.prems" mediated_upload [of ?s0] by (simp add: effects_frame)
  show ?case
  proof (cases ?u)
    case (Returned s1)
    with m have "list_all server_mediated
        (effects (s1\<lparr>fileList := fileList s1 @ [createFileItem f (generateId random36)]\<rparr>))"
      by (simp add: effects_frame)
    from "2.IH" [OF this] Returned show ?thesis by (simp add: effects_frame)
  next
    case (Raised e s1)
    with m show ?thesis by (simp add: effects_frame)
  next
    case (Stuck s1)
    with m show ?thesis by (simp add: effects_frame)
  qed
qed

lemma mediated_removeFile:
  "list_all server_mediated (effects s) \<Longrightarrow>
   list_all server_mediated (effects (state_of (removeFile fileId fetched s)))"
  by (cases fetched) (simp_all add: effects_frame removeFile_def await_fetch_def server_mediated_def)

lemma effects_detectionTimeout:
  "effects (detectionTimeout s) = effects s @ [ClosePeerConnection]"
  by (simp add: effects_frame detectionTimeout_def)

lemma mediated_gather:
  "list_all server_mediated (effects s) \<Longrightarrow>
   list_all server_mediated (effects (state_of (gather events s)))"
  by (induction events s rule: gather.induct)
     (simp_all add: effects_frame effects_detectionTimeout server_mediated_def split: option.splits)

lemma mediated_webrtcFallback:
  "list_all server_mediated (effects s) \<Longrightarrow>
   list_all server_mediated (effects (state_of (webrtcFallback rtc s)))"
proof (cases rtc)
  case (NoRtc e)
  assume "list_all server_mediated (effects s)"
  with NoRtc show ?thesis by (simp add: effects_frame webrtcFallback_def detectionFailed_def)
next
  case (OfferFails e)
  assume "list_all server_mediated (effects s)"
  with OfferFails show ?thesis
    by (simp add: effects_frame webrtcFallback_def detectionFailed_def server_mediated_def)
next
  case (Gathering events)
  assume "list_all server_mediated (effects s)"
  then have "list_all server_mediated
      (effects (emit (CreateDataChannel '''') (emit (NewPeerConnection []) s)))"
    by (simp add: effects_frame server_mediated_def)
  from mediated_gather [OF this] Gathering show ?thesis by (simp add: effects_frame webrtcFallback_def)
qed

lemma mediated_detect:
  assumes "list_all server_mediated (effects s)"
  shows "list_all server_mediated (effects (state_of (detectNetworkInfo info rtc s)))"
proof -
  have a: "list_all server_mediated (effects (emit (Fetch ''GET'' ''/api/network-info'' []) s))"
    using assms by (simp add: effects_frame server_mediated_def)
  then have b: "list_all server_mediated (effects (log_line m (emit (Fetch ''GET'' ''/api/network-info'' []) s)))" for m
    by (simp add: effects_frame)
  show ?thesis
    using a mediated_webrtcFallback [OF a] mediated_webrtcFallback [OF b]
    by (cases info) (simp_all add: effects_frame detectNetworkInfo_def split: option.splits)
qed

lemma mediated_load:
  "list_all server_mediated (effects s) \<Longrightarrow>
   list_all server_mediated (effects (state_of (loadAvailableFiles fetched s)))"
  by (cases fetched)
     (simp_all add: effects_frame loadAvailableFiles_def await_fetch_def server_mediated_def split: option.splits)

lemma mediated_connect:
  assumes "list_all server_mediated (effects s)"
  shows "list_all server_mediated (effects (state_of (connectToHost input tested listed s)))"
proof (cases "trim input = []")
  case True
  with assms show ?thesis by (simp add: effects_frame connectToHost_def)
next
  case False
  show ?thesis
  proof (cases tested)
    case (Fulfilled r)
    let ?s1 = "emit (Fetch ''GET'' (testUrl (trim input)) []) (showConnectionStatus ''Connecting...'' ''info'' s)"
    let ?s2 = "(showConnectionStatus ''Connected successfully!'' ''success'' ?s1)\<lparr>currentHostUrl := Some (trim input)\<rparr>"
    have "list_all server_mediated (effects ?s2)"
      using assms by (simp add: effects_frame server_mediated_def showConnectionStatus_def emit_def)
    from mediated_load [OF this, of listed] have l: "list_all server_mediated (effects (state_of (loadAvailableFiles listed ?s2)))" .
    have nr: "\<not> is_raised (loadAvailableFiles listed ?s2)"
      by (cases listed) (simp_all add: effects_frame loadAvailableFiles_def await_fetch_def split: option.splits)
    show ?thesis
    proof (cases "resp_ok r")
      case True
      with False Fulfilled l nr show ?thesis
        by (cases "loadAvailableFiles listed ?s2") (simp_all add: effects_frame connectToHost_def await_fetch_def)
    next
      case no: False
      with False Fulfilled assms show ?thesis
        by (simp add: effects_frame connectToHost_def await_fetch_def server_mediated_def)
    qed
  next
    case (RejectedWith e)
    with False assms show ?thesis
      by (simp add: effects_frame connectToHost_def await_fetch_def server_mediated_def)
  next
    case Unsettled
    with False assms show ?thesis
      by (simp add: effects_frame connectToHost_def await_fetch_def server_mediated_def)
  qed
qed

lemma effects_pump:
  "effects (snd (state_of (pump fileId tot loaded blob evs s))) = effects s"
  by (induction fileId tot loaded blob evs s rule: pump.induct) (simp_all add: effects_frame)

lemma downloadUrl_endpoint:
  "\<exists>base. downloadUrl currentHost fileId = base @ ''/api/download/'' @ fileId"
proof (cases "truthy currentHost \<and> endsWith (the currentHost) ''/''")
  case True
  then have "the currentHost \<noteq> []" and "last (the currentHost) = CHR ''/''"
    by (simp_all add: effects_frame endsWith_slash)
  then have "the currentHost = butlast (the currentHost) @ ''/''"
    using append_butlast_last_id [of "the currentHost"] by (simp add: effects_frame)
  then have "the currentHost @ ''api/download/'' @ fileId =
      butlast (the currentHost) @ ''/api/download/'' @ fileId"
    by (metis append.assoc append_Cons append_Nil)
  with True show ?thesis by (auto simp: effects_frame downloadUrl_def)
next
  case False
  then show ?thesis
    by (cases "truthy currentHost") (auto simp: effects_frame downloadUrl_def intro: exI [of _ "[]"])
qed

lemma downloadFile_effects:
  "effects (state_of (downloadFile fileId fileName userAgent fetched s)) =
     effects s @ [Navigate (downloadUrl (currentHostUrl s) fileId)] \<or>
   effects (state_of (downloadFile fileId fileName userAgent fetched s)) =
     effects s @ [Fetch ''GET'' (downloadUrl (currentHostUrl s) fileId) []] \<or>
   (\<exists>blob. effects (state_of (downloadFile fileId fileName userAgent fetched s)) =
     effects s @ [Fetch ''GET'' (downloadUrl (currentHostUrl s) fileId) [], SaveAs fileName blob])"
proof (cases "isMobile userAgent")
  case True
  then show ?thesis by (simp add: effects_frame downloadFile_def)
next
  case False
  show ?thesis
  proof (cases fetched)
    case (Fulfilled r)
    let ?s1 = "emit (Fetch ''GET'' (downloadUrl (currentHostUrl s) fileId) [])
            ((log_line (''Downloading from: '' @ downloadUrl (currentHostUrl s) fileId) s)
             \<lparr>progressList := progressList s @ [(fileName, fileId)]\<rparr>)"
    let ?p = "pump fileId (parseInt (map_of (resp_headers r) ''content-length'')) 0 [] (resp_body r) ?s1"
    have e: "effects (snd (state_of ?p)) = effects s @ [Fetch ''GET'' (downloadUrl (currentHostUrl s) fileId) []]"
      by (simp add: effects_frame effects_pump emit_def log_line_def)
    show ?thesis
    proof (cases "resp_ok r")
      case True
      with False Fulfilled e show ?thesis
        by (cases ?p) (auto simp: effects_frame downloadFile_def await_fetch_def emit_def log_line_def)
    next
      case no: False
      with False Fulfilled show ?thesis
        by (simp add: effects_frame downloadFile_def await_fetch_def)
    qed
  next
    case (RejectedWith e)
    with False show ?thesis by (simp add: effects_frame downloadFile_def await_fetch_def)
  next
    case Unsettled
    with False show ?thesis by (simp add: effects_frame downloadFile_def await_fetch_def)
  qed
qed

lemma mediated_download:
  assumes "list_all server_mediated (effects s)"
  shows "list_all server_mediated (effects (state_of (downloadFile fileId fileName userAgent fetched s)))"
proof (cases "isMobile userAgent")
  case True
  with assms show ?thesis by (simp add: effects_frame downloadFile_def server_mediated_def)
next
  case False
  show ?thesis
  proof (cases fetched)
    case (Fulfilled r)
    let ?s1 = "emit (Fetch ''GET'' (downloadUrl (currentHostUrl s) fileId) [])
            ((log_line (''Downloading from: '' @ downloadUrl (currentHostUrl s) fileId) s)
             \<lparr>progressList := progressList s @ [(fileName, fileId)]\<rparr>)"
    let ?p = "pump fileId (parseInt (map_of (resp_headers r) ''content-length'')) 0 [] (resp_body r) ?s1"
    have e: "effects (snd (state_of ?p)) = effects s @ [Fetch ''GET'' (downloadUrl (currentHostUrl s) fileId) []]"
      by (simp add: effects_frame effects_pump emit_def log_line_def)
    have "list_all server_mediated (effects (snd (state_of ?p)))"
      unfolding e using assms by (simp add: effects_frame server_mediated_def)
    then have "list_all server_mediated (effects (state_of (try_catch (with_blob ?p
                   (\<lambda>blob s2.
                      Returned (showToast (fileName @ '' downloaded successfully!'') ''success''
                                  (emit (SaveAs fileName blob) s2))))
       (\<lambda>e s1. Returned (showToast (''Failed to download '' @ fileName) ''error''
                           (log_line (''Download error: '' @ e) s1))))))"
      by (cases ?p) (auto simp: effects_frame server_mediated_def)
    with False Fulfilled assms show ?thesis
      by (simp add: effects_frame downloadFile_def await_fetch_def server_mediated_def emit_def log_line_def)
  next
    case (RejectedWith e)
    with False assms show ?thesis
      by (simp add: effects_frame downloadFile_def await_fetch_def server_mediated_def)
  next
    case Unsettled
    with False assms show ?thesis
      by (simp add: effects_frame downloadFile_def await_fetch_def server_mediated_def)
  qed
qed

lemma message_inert:
  "state_of (handleDataChannelMessage parsed s) =
   s\<lparr>console := console (state_of (handleDataChannelMessage parsed s))\<rparr>"
  by (cases parsed) (simp_all add: effects_frame handleDataChannelMessage_def log_line_def)

lemma mediated_step:
  assumes "list_all server_mediated (effects s)"
  shows "list_all server_mediated (effects (step a s))"
proof (cases a)
  case (DetectNetworkInfo info rtc)
  with mediated_detect [OF assms] show ?thesis by (simp add: effects_frame)
next
  case (SetupPeerConnection unavailable)
  with assms show ?thesis
    by (cases unavailable)
       (simp_all add: effects_frame setupPeerConnection_def server_mediated_def)
next
  case (HandleFiles picked)
  with mediated_handleFiles [OF assms] show ?thesis by (simp add: effects_frame)
next
  case (RemoveFile fileId fetched)
  with mediated_removeFile [OF assms] show ?thesis by (simp add: effects_frame)
next
  case (ConnectToHost input tested listed)
  with mediated_connect [OF assms] show ?thesis by (simp add: effects_frame)
next
  case (LoadAvailableFiles fetched)
  with mediated_load [OF assms] show ?thesis by (simp add: effects_frame)
next
  case (DownloadFile fileId fileName userAgent fetched)
  with mediated_download [OF assms] show ?thesis by (simp add: effects_frame)
next
  case (DataChannelMessage parsed)
  have "effects (state_of (handleDataChannelMessage parsed s)) = effects s"
    by (subst message_inert) (simp add: effects_frame)
  with DataChannelMessage assms show ?thesis by (simp add: effects_frame)
next
  case (TimerFires t)
  with assms show ?thesis
    by (cases t) (simp_all add: effects_frame effects_detectionTimeout server_mediated_def)
qed

lemma mediated_execute:
  "list_all server_mediated (effects s) \<Longrightarrow>
   list_all server_mediated (effects (execute actions s))"
  unfolding execute_def
  by (induction actions arbitrary: s) (simp_all add: effects_frame mediated_step)

text \<open>
  C7. The data channel never carries file content. In every execution of the page from
  its initial state, no effect is a \<^verbatim>\<open>send\<close> on a data channel, and every request that
  submits a file is \<^verbatim>\<open>POST /api/upload\<close>. A download does nothing to the outside but
  navigate to the download address, or request it with \<^verbatim>\<open>fetch\<close> and then save the blob
  read from the response; that address ends with \<^verbatim>\<open>/api/download/\<close> and the id. A
  message arriving on the channel changes nothing but the console: the handlers it names
  do not exist.
\<close>

theorem transfers_are_server_mediated:
  "(\<forall>e \<in> set (effects (execute actions new_app)).
      \<not> is_send e \<and> (submits_file e \<longrightarrow> is_upload_request e)) \<and>
   (effects (state_of (downloadFile fileId fileName userAgent fetched s)) =
      effects s @ [Navigate (downloadUrl (currentHostUrl s) fileId)] \<or>
    effects (state_of (downloadFile fileId fileName userAgent fetched s)) =
      effects s @ [Fetch ''GET'' (downloadUrl (currentHostUrl s) fileId) []] \<or>
    (\<exists>blob. effects (state_of (downloadFile fileId fileName userAgent fetched s)) =
      effects s @ [Fetch ''GET'' (downloadUrl (currentHostUrl s) fileId) [],
                   SaveAs fileName blob])) \<and>
   (\<exists>base. downloadUrl (currentHostUrl s) fileId = base @ ''/api/download/'' @ fileId) \<and>
   state_of (handleDataChannelMessage parsed s) =
     s\<lparr>console := console (state_of (handleDataChannelMessage parsed s))\<rparr>"
proof -
  have "list_all server_mediated (effects new_app)"
    by (simp add: effects_frame new_app_def)
  from mediated_execute [OF this, of actions]
  have "\<forall>e \<in> set (effects (execute actions new_app)).
      \<not> is_send e \<and> (submits_file e \<longrightarrow> is_upload_request e)"
    by (simp add: effects_frame list_all_iff server_mediated_def)
  with downloadFile_effects [of fileId fileName userAgent fetched s]
    downloadUrl_endpoint [of "currentHostUrl s" fileId]
    message_inert [of parsed s]
  show ?thesis by blast
qed

theorem transfers_are_server_mediated_witness:
  "effects (execute
      [SetupPeerConnection None,
       HandleFiles [(\<lparr>file_name = ''a.txt'', file_type = ''text/plain'', file_content = ''hi''\<rparr>,
                     ''0.k3x9q2w8e1zz'',
                     Fulfilled \<lparr>resp_ok = True, resp_status = 200, resp_headers = [],
                                resp_json = None, resp_body = []\<rparr>)],
       DataChannelMessage (Some (Some ''fileChunk''))] new_app)
   = [NewPeerConnection [''stun:stun.l.google.com:19302''],
      CreateDataChannel ''fileTransfer'',
      Fetch ''POST'' ''/api/upload''
        [(''file'', FormFile \<lparr>file_name = ''a.txt'', file_type = ''text/plain'', file_content = ''hi''\<rparr>),
         (''fileId'', FormText ''k3x9q2w8e'')]] \<and>
   \<not> is_send (Fetch ''POST'' ''/api/upload''
        [(''file'', FormFile \<lparr>file_name = ''a.txt'', file_type = ''text/plain'', file_content = ''hi''\<rparr>),
         (''fileId'', FormText ''k3x9q2w8e'')]) \<and>
   is_upload_request (Fetch ''POST'' ''/api/upload''
        [(''file'', FormFile \<lparr>file_name = ''a.txt'', file_type = ''text/plain'', file_content = ''hi''\<rparr>),
         (''fileId'', FormText ''k3x9q2w8e'')])"
proof -
  have run: "effects (execute
      [SetupPeerConnection None,
       HandleFiles [(\<lparr>file_name = ''a.txt'', file_type = ''text/plain'', file_content = ''hi''\<rparr>,
                     ''0.k3x9q2w8e1zz'',
                     Fulfilled \<lparr>resp_ok = True, resp_status = 200, resp_headers = [],
                                resp_json = None, resp_body = []\<rparr>)],
       DataChannelMessage (Some (Some ''fileChunk''))] new_app)
   = [NewPeerConnection [''stun:stun.l.google.com:19302''],
      CreateDataChannel ''fileTransfer'',
      Fetch ''POST'' ''/api/upload''
        [(''file'', FormFile \<lparr>file_name = ''a.txt'', file_type = ''text/plain'', file_content = ''hi''\<rparr>),
         (''fileId'', FormText ''k3x9q2w8e'')]]"
    by (simp add: execute_def setupPeerConnection_def uploadFileToServer_def await_fetch_def
        generateId_def substr_def handleDataChannelMessage_def app_defs new_app_def)
  show ?thesis
    using transfers_are_server_mediated [of
      "[SetupPeerConnection None,
       HandleFiles [(\<lparr>file_name = ''a.txt'', file_type = ''text/plain'', file_content = ''hi''\<rparr>,
                     ''0.k3x9q2w8e1zz'',
                     Fulfilled \<lparr>resp_ok = True, resp_status = 200, resp_headers = [],
                                resp_json = None, resp_body = []\<rparr>)],
       DataChannelMessage (Some (Some ''fileChunk''))]"]
    unfolding run by simp
qed

section \<open>Decimal texts and chunks\<close>

lemma digit_char_facts:
  assumes "d < 10"
  shows "is_digit (digit_char d)" and "digit_val (digit_char d) = d"
proof -
  from assms have "d \<in> {0, 1, 2, 3, 4, 5, 6, 7, 8, 9}" by auto
  then show "is_digit (digit_char d)" and "digit_val (digit_char d) = d"
    by (auto simp: digit_char_def is_digit_def digit_val_def)
qed

lemma decimal_digits: "decimal n \<noteq> [] \<and> list_all is_digit (decimal n)"
proof (induction n rule: decimal.induct)
  case (1 n)
  show ?case
  proof (cases "n < 10")
    case True
    then show ?thesis by (simp add: decimal_digit digit_char_facts)
  next
    case False
    with 1 show ?thesis by (simp add: decimal_step digit_char_facts)
  qed
qed

lemma digits_value_snoc: "digits_value (ds @ [c]) = 10 * digits_value ds + digit_val c"
  by (simp add: digits_value_def)

lemma digits_value_decimal: "digits_value (decimal n) = n"
proof (induction n rule: decimal.induct)
  case (1 n)
  show ?case
  proof (cases "n < 10")
    case True
    then show ?thesis by (simp add: decimal_digit digits_value_def digit_char_facts)
  next
    case False
    with 1 show ?thesis
      by (simp add: decimal_step digits_value_snoc digit_char_facts)
  qed
qed

lemma decimal_inject:
  assumes "decimal m = decimal n"
  shows "m = n"
proof -
  from assms have "digits_value (decimal m) = digits_value (decimal n)" by (rule arg_cong)
  then show ?thesis by (simp only: digits_value_decimal)
qed

lemma digit_not_sign: "is_digit c \<Longrightarrow> \<not> is_space c \<and> c \<noteq> CHR ''-'' \<and> c \<noteq> CHR ''+''"
  by (auto simp: is_digit_def is_space_def)

lemma parseInt_decimal: "parseInt (Some (decimal n)) = Some (int n)"
proof -
  from decimal_digits [of n] obtain c r where cr: "decimal n = c # r" and "is_digit c"
    by (cases "decimal n") auto
  with digit_not_sign [of c] have sp: "dropWhile is_space (decimal n) = decimal n"
    and sg: "c \<noteq> CHR ''-''" "c \<noteq> CHR ''+''"
    by simp_all
  have tw: "takeWhile is_digit (decimal n) = decimal n"
    using decimal_digits [of n] by (simp add: list_all_iff)
  have "parse_signed (decimal n) = Some (int (digits_value (decimal n)))"
    using sg tw cr by (simp add: parse_signed_def)
  then show ?thesis
    by (simp add: parseInt_def sp digits_value_decimal)
qed

lemma concat_chunk_bytes: "concat (chunk_bytes cuts bs) = bs"
  by (induction cuts bs rule: chunk_bytes.induct) simp_all

lemma reports_closed:
  "reports fileId tot loaded cs =
   map (\<lambda>k. (fileId, RoundPercent (loaded + length (concat (take (Suc k) cs))) tot)) [0..<length cs]"
proof (induction cs arbitrary: loaded)
  case Nil
  show ?case by simp
next
  case (Cons c cs)
  show ?case
    by (simp add: Cons.IH map_upt_Suc add.assoc del: upt_Suc)
qed

section \<open>Download progress: results\<close>

lemma download_response_found:
  "Download fileId reg = Inr f \<Longrightarrow>
   download_response reg fileId cuts =
     \<lparr>resp_ok = True, resp_status = 200,
      resp_headers =
        [(''content-length'', decimal (sf_size f)),
         (''content-type'', sf_mimeType f),
         (''content-disposition'', ''attachment; filename='' @ sf_name f)],
      resp_json = None,
      resp_body = map Data (chunk_bytes cuts (sf_content f))\<rparr>"
  by (simp add: download_response_def)

lemma pump_all_data:
  "pump fileId tot loaded blob (map Data cs) s =
   Returned (blob @ concat cs, s\<lparr>progressText := progressText s @ reports fileId tot loaded cs\<rparr>)"
  using pump_data [of fileId tot loaded blob cs "[]" s] by simp

text \<open>
  C3. A download with progress tracking (the branch for desktop browsers) of a catalog
  entry whose recorded size is the length of its content: the total parsed from the
  Content-Length header equals the number of bytes delivered; after the \<open>k\<close>-th chunk the
  progress text is the rounded percentage of the bytes received so far over that total;
  the blob saved is the content; and the method returns with the success toast. This holds
  for every content below \<open>2^53\<close> bytes and every chunking, the empty file included,
  for which no chunk arrives and no progress is computed.
\<close>

theorem download_progress:
  assumes "Download fileId reg = Inr f"
    and "sf_size f = length (sf_content f)"
    and "length (sf_content f) < 2 ^ 53"
    and "\<not> isMobile userAgent"
  shows "parseInt (map_of (resp_headers (download_response reg fileId cuts)) ''content-length'')
           = Some (int (length (concat (chunk_bytes cuts (sf_content f))))) \<and>
         (\<exists>s'. downloadFile fileId fileName userAgent
                  (Fulfilled (download_response reg fileId cuts)) s = Returned s' \<and>
               progressText s' = progressText s @
                 map (\<lambda>k. (fileId,
                            RoundPercent
                              (length (concat (take (Suc k) (chunk_bytes cuts (sf_content f)))))
                              (Some (int (length (sf_content f))))))
                     [0..<length (chunk_bytes cuts (sf_content f))] \<and>
               effects s' = effects s @
                 [Fetch ''GET'' (downloadUrl (currentHostUrl s) fileId) [],
                  SaveAs fileName (sf_content f)] \<and>
               toasts s' = toasts s @ [(fileName @ '' downloaded successfully!'', ''success'')])"
proof -
  note resp = download_response_found [OF assms(1), of cuts]
  have len: "parseInt (map_of (resp_headers (download_response reg fileId cuts)) ''content-length'')
      = Some (int (length (sf_content f)))"
    by (simp add: resp assms(2) parseInt_decimal)
  show ?thesis
    using assms(4)
    by (simp add: resp assms(2) parseInt_decimal downloadFile_def await_fetch_def
          pump_all_data reports_closed concat_chunk_bytes app_defs)
qed

theorem download_progress_witness:
  "(\<exists>s'. downloadFile ''0'' ''empty.txt'' ''Mozilla/5.0 (X11; Linux x86_64)''
            (Fulfilled (download_response
               \<lparr>catalog = [\<lparr>sf_id = ''0'', sf_name = ''empty.txt'', sf_mimeType = ''text/plain'',
                             sf_size = 0, sf_content = []\<rparr>],
                next_id = 1, capacity = 1000\<rparr> ''0'' [])) new_app = Returned s' \<and>
         progressText s' = [] \<and>
         effects s' = [Fetch ''GET'' ''/api/download/0'' [], SaveAs ''empty.txt'' []] \<and>
         toasts s' = [(''empty.txt downloaded successfully!'', ''success'')]) \<and>
   (\<exists>s'. downloadFile ''1'' ''note.txt'' ''Mozilla/5.0 (X11; Linux x86_64)''
            (Fulfilled (download_response
               \<lparr>catalog = [\<lparr>sf_id = ''1'', sf_name = ''note.txt'', sf_mimeType = ''text/plain'',
                             sf_size = 5, sf_content = ''hello''\<rparr>],
                next_id = 2, capacity = 1000\<rparr> ''1'' [2])) new_app = Returned s' \<and>
         progressText s' = [(''1'', RoundPercent 2 (Some 5)), (''1'', RoundPercent 5 (Some 5))] \<and>
         effects s' = [Fetch ''GET'' ''/api/download/1'' [], SaveAs ''note.txt'' ''hello''] \<and>
         toasts s' = [(''note.txt downloaded successfully!'', ''success'')])"
proof -
  let ?r0 = "\<lparr>catalog = [\<lparr>sf_id = ''0'', sf_name = ''empty.txt'', sf_mimeType = ''text/plain'',
                             sf_size = 0, sf_content = []\<rparr>],
                next_id = 1, capacity = 1000\<rparr>"
  let ?f0 = "\<lparr>sf_id = ''0'', sf_name = ''empty.txt'', sf_mimeType = ''text/plain'',
                             sf_size = 0, sf_content = []\<rparr>"
  let ?r1 = "\<lparr>catalog = [\<lparr>sf_id = ''1'', sf_name = ''note.txt'', sf_mimeType = ''text/plain'',
                             sf_size = 5, sf_content = ''hello''\<rparr>],
                next_id = 2, capacity = 1000\<rparr>"
  let ?f1 = "\<lparr>sf_id = ''1'', sf_name = ''note.txt'', sf_mimeType = ''text/plain'',
                             sf_size = 5, sf_content = ''hello''\<rparr>"
  have a0: "Download ''0'' ?r0 = Inr ?f0" by (simp add: Download_def)
  have a1: "Download ''1'' ?r1 = Inr ?f1" by (simp add: Download_def)
  have b0: "sf_size ?f0 = length (sf_content ?f0)" by simp
  have b1: "sf_size ?f1 = length (sf_content ?f1)" by simp
  have c0: "length (sf_content ?f0) < 2 ^ 53" by simp
  have c1: "length (sf_content ?f1) < 2 ^ 53" by simp
  have up: "[0..<2] = [0, Suc 0]" by (simp add: upt_rec)
  show ?thesis
    using download_progress [OF a0 b0 c0 desktop_agent, of "[]" "''empty.txt''" new_app]
      download_progress [OF a1 b1 c1 desktop_agent, of "[2]" "''note.txt''" new_app]
    by (simp add: new_app_def downloadUrl_def truthy_def up eval_nat_numeral)
qed

section \<open>The registry: results\<close>

lemma Upload_ignores_hint: "Upload (q\<lparr>up_fileId := hint\<rparr>) r = Upload q r"
  by (simp add: Upload_def split: option.splits)

lemma serve_without_hint: "serve (without_hint c) r = serve c r"
  by (cases c) (simp_all add: Upload_ignores_hint)

lemma serve_all_without_hint: "serve_all (map without_hint calls) r = serve_all calls r"
  unfolding serve_all_def
  by (induction calls arbitrary: r) (simp_all add: serve_without_hint)

lemma consistent_empty: "consistent (empty_registry space)"
  by (simp add: consistent_def issued_by_registry_def empty_registry_def)

lemma Upload_result:
  assumes "Upload q r = Inr (fileId, r')"
  shows "\<exists>filename fileBytes. r' = r\<lparr>catalog := catalog r @
                   [\<lparr>sf_id = decimal (next_id r), sf_name = filename,
                     sf_mimeType = up_mimeType q, sf_size = length fileBytes,
                     sf_content = fileBytes\<rparr>],
                next_id := Suc (next_id r)\<rparr> \<and> fileId = decimal (next_id r)"
  using assms
  by (simp add: Upload_def split: option.splits if_splits) blast

lemma consistent_Upload:
  assumes "consistent r" and "Upload q r = Inr (fileId, r')"
  shows "consistent r'" and "fileId = decimal (next_id r)" and "fileId \<notin> sf_id ` set (catalog r)"
proof -
  from assms(2) obtain filename fileBytes where
    r': "r' = r\<lparr>catalog := catalog r @
                   [\<lparr>sf_id = decimal (next_id r), sf_name = filename,
                     sf_mimeType = up_mimeType q, sf_size = length fileBytes,
                     sf_content = fileBytes\<rparr>],
                next_id := Suc (next_id r)\<rparr>"
    and fid: "fileId = decimal (next_id r)"
    using Upload_result by blast
  have fresh: "decimal (next_id r) \<notin> sf_id ` set (catalog r)"
  proof
    assume "decimal (next_id r) \<in> sf_id ` set (catalog r)"
    then obtain f where f: "f \<in> set (catalog r)" and idf: "sf_id f = decimal (next_id r)"
      by auto
    from assms(1) f obtain n where n: "n < next_id r" and idn: "sf_id f = decimal n"
      unfolding consistent_def issued_by_registry_def by blast
    from idn [symmetric] idf have "decimal n = decimal (next_id r)" by (rule trans)
    then have "n = next_id r" by (rule decimal_inject)
    with n show False by simp
  qed
  show "fileId = decimal (next_id r)" by (rule fid)
  show "fileId \<notin> sf_id ` set (catalog r)" unfolding fid by (rule fresh)
  have old: "\<forall>f \<in> set (catalog r). \<exists>n < Suc (next_id r). sf_id f = decimal n"
  proof
    fix f assume "f \<in> set (catalog r)"
    with assms(1) obtain n where "n < next_id r" "sf_id f = decimal n"
      unfolding consistent_def issued_by_registry_def by blast
    then show "\<exists>n < Suc (next_id r). sf_id f = decimal n"
      by (intro exI [of _ n]) simp
  qed
  have new: "\<exists>n < Suc (next_id r). decimal (next_id r) = decimal n"
    by (intro exI [of _ "next_id r"]) simp
  have "issued_by_registry r'"
    unfolding r' issued_by_registry_def using old new by simp
  moreover have "distinct (map sf_id (catalog r'))"
    using assms(1) fresh unfolding r' consistent_def by simp
  moreover have "\<forall>f \<in> set (catalog r'). sf_size f = length (sf_content f)"
    using assms(1) unfolding r' consistent_def by simp
  ultimately show "consistent r'" by (simp add: consistent_def)
qed

lemma consistent_Remove:
  assumes "consistent r" and "Remove fileId r = Inr r'"
  shows "consistent r'"
proof -
  from assms(2) have r': "r' = r\<lparr>catalog := filter (\<lambda>f. sf_id f \<noteq> fileId) (catalog r)\<rparr>"
    by (simp add: Remove_def split: if_splits)
  show ?thesis
    using assms(1) unfolding r' consistent_def issued_by_registry_def
    by (auto simp: distinct_map_filter)
qed

lemma consistent_serve: "consistent r \<Longrightarrow> consistent (serve c r)"
proof (cases c)
  case (UploadCall q)
  assume "consistent r"
  with UploadCall show ?thesis
    by (cases "Upload q r") (auto dest: consistent_Upload(1))
next
  case (RemoveCall fileId)
  assume "consistent r"
  with RemoveCall show ?thesis
    by (cases "Remove fileId r") (auto dest: consistent_Remove)
qed simp_all

lemma consistent_serve_all: "consistent r \<Longrightarrow> consistent (serve_all calls r)"
  unfolding serve_all_def
  by (induction calls arbitrary: r) (simp_all add: consistent_serve)

text \<open>
  C1. After any sequence of calls on an empty registry, every identifier in the catalog
  was produced from the counter of the registry, and the identifiers are pairwise
  distinct. The \<^verbatim>\<open>fileId\<close> sent by a client has no influence: erasing it from every
  upload leaves the resulting registry unchanged, and for the form that
  \<^verbatim>\<open>uploadFileToServer\<close> submits, the result of Upload is the same whatever random text
  \<^verbatim>\<open>generateId\<close> cut the identifier from.
\<close>

theorem catalog_ids_are_server_generated:
  "(\<forall>f \<in> set (catalog (serve_all calls (empty_registry space))).
      \<exists>n < next_id (serve_all calls (empty_registry space)). sf_id f = decimal n) \<and>
   distinct (map sf_id (catalog (serve_all calls (empty_registry space)))) \<and>
   serve_all (map without_hint calls) (empty_registry space) =
     serve_all calls (empty_registry space) \<and>
   Upload (q\<lparr>up_fileId := hint\<rparr>) r = Upload q r \<and>
   Upload (upload_request_of
             [(''file'', FormFile file), (''fileId'', FormText (generateId random36))]) r =
   Upload (upload_request_of
             [(''file'', FormFile file), (''fileId'', FormText (generateId other36))]) r"
proof -
  have "upload_request_of [(''file'', FormFile file), (''fileId'', FormText t)] =
        (upload_request_of [(''file'', FormFile file)])\<lparr>up_fileId := Some t\<rparr>" for t
    by (simp add: upload_request_of_def)
  then show ?thesis
    using consistent_serve_all [OF consistent_empty, of calls space]
    by (simp add: consistent_def issued_by_registry_def serve_all_without_hint Upload_ignores_hint)
qed

theorem catalog_ids_are_server_generated_witness:
  "map sf_id (catalog (serve_all
      [UploadCall \<lparr>up_filename = Some ''a.txt'', up_body = Some ''hi'',
                    up_mimeType = ''text/plain'', up_fileId = Some ''k3x9q2w8e''\<rparr>,
       UploadCall \<lparr>up_filename = Some ''b.txt'', up_body = Some ''ho'',
                    up_mimeType = ''text/plain'', up_fileId = Some ''k3x9q2w8e''\<rparr>]
      (empty_registry 1000))) = [''0'', ''1''] \<and>
   next_id (serve_all
      [UploadCall \<lparr>up_filename = Some ''a.txt'', up_body = Some ''hi'',
                    up_mimeType = ''text/plain'', up_fileId = Some ''k3x9q2w8e''\<rparr>,
       UploadCall \<lparr>up_filename = Some ''b.txt'', up_body = Some ''ho'',
                    up_mimeType = ''text/plain'', up_fileId = Some ''k3x9q2w8e''\<rparr>]
      (empty_registry 1000)) = 2 \<and>
   serve_all
      [UploadCall \<lparr>up_filename = Some ''a.txt'', up_body = Some ''hi'',
                    up_mimeType = ''text/plain'', up_fileId = None\<rparr>,
       UploadCall \<lparr>up_filename = Some ''b.txt'', up_body = Some ''ho'',
                    up_mimeType = ''text/plain'', up_fileId = None\<rparr>]
      (empty_registry 1000) =
   serve_all
      [UploadCall \<lparr>up_filename = Some ''a.txt'', up_body = Some ''hi'',
                    up_mimeType = ''text/plain'', up_fileId = Some ''k3x9q2w8e''\<rparr>,
       UploadCall \<lparr>up_filename = Some ''b.txt'', up_body = Some ''ho'',
                    up_mimeType = ''text/plain'', up_fileId = Some ''k3x9q2w8e''\<rparr>]
      (empty_registry 1000)"
proof -
  have run: "serve_all
      [UploadCall \<lparr>up_filename = Some ''a.txt'', up_body = Some ''hi'',
                    up_mimeType = ''text/plain'', up_fileId = Some ''k3x9q2w8e''\<rparr>,
       UploadCall \<lparr>up_filename = Some ''b.txt'', up_body = Some ''ho'',
                    up_mimeType = ''text/plain'', up_fileId = Some ''k3x9q2w8e''\<rparr>]
      (empty_registry 1000) =
     \<lparr>catalog =
        [\<lparr>sf_id = ''0'', sf_name = ''a.txt'', sf_mimeType = ''text/plain'', sf_size = 2,
          sf_content = ''hi''\<rparr>,
         \<lparr>sf_id = ''1'', sf_name = ''b.txt'', sf_mimeType = ''text/plain'', sf_size = 2,
          sf_content = ''ho''\<rparr>],
      next_id = 2, capacity = 1000\<rparr>"
    by (simp add: serve_all_def Upload_def stored_bytes_def empty_registry_def js_eval)
  show ?thesis
    using catalog_ids_are_server_generated [of
      "[UploadCall \<lparr>up_filename = Some ''a.txt'', up_body = Some ''hi'',
                    up_mimeType = ''text/plain'', up_fileId = Some ''k3x9q2w8e''\<rparr>,
       UploadCall \<lparr>up_filename = Some ''b.txt'', up_body = Some ''ho'',
                    up_mimeType = ''text/plain'', up_fileId = Some ''k3x9q2w8e''\<rparr>]" 1000]
    unfolding run by simp
qed

lemma accepted_uploads_names:
  assumes "\<forall>q \<in> set qs. accepted q"
    and "stored_bytes r + sum_list (map request_size qs) \<le> capacity r"
  shows "map sf_name (catalog (serve_all (map UploadCall qs) r)) =
         map sf_name (catalog r) @ map (\<lambda>q. the (up_filename q)) qs"
  using assms
proof (induction qs arbitrary: r)
  case Nil
  show ?case by (simp add: serve_all_def)
next
  case (Cons q qs)
  from Cons.prems(1) obtain filename fileBytes where
    q: "up_filename q = Some filename" "up_body q = Some fileBytes" "fileBytes \<noteq> []"
    by (auto simp: accepted_def)
  let ?r' = "r\<lparr>catalog := catalog r @
                   [\<lparr>sf_id = decimal (next_id r), sf_name = filename,
                     sf_mimeType = up_mimeType q, sf_size = length fileBytes,
                     sf_content = fileBytes\<rparr>],
                next_id := Suc (next_id r)\<rparr>"
  from q have sz: "request_size q = length fileBytes"
    by (simp add: request_size_def)
  from Cons.prems(2) have fits: "\<not> capacity r < stored_bytes r + length fileBytes"
    by (simp add: sz)
  with q have step: "serve (UploadCall q) r = ?r'"
    by (simp add: Upload_def)
  have "stored_bytes ?r' + sum_list (map request_size qs) \<le> capacity ?r'"
    using Cons.prems(2) by (simp add: stored_bytes_def sz)
  with Cons.IH [of ?r'] Cons.prems(1)
  have "map sf_name (catalog (serve_all (map UploadCall qs) ?r')) =
        map sf_name (catalog ?r') @ map (\<lambda>q. the (up_filename q)) qs"
    by simp
  then show ?case by (simp add: serve_all_def step q del: serve.simps)
qed

text \<open>
  C2. Uploads that run concurrently are serialised on the catalog, so they take effect
  in some order. For \<open>N\<close> upload requests that are well formed and fit into the space of
  the registry, served in any order on an empty registry, ListCatalog returns exactly
  \<open>N\<close> entries, their identifiers are pairwise distinct, and the entries are the uploaded
  files in the order served: none is lost.
\<close>

theorem concurrent_uploads_all_listed:
  assumes "mset order = mset requests"
    and "\<forall>q \<in> set requests. accepted q"
    and "sum_list (map request_size requests) \<le> space"
  shows "length (ListCatalog (serve_all (map UploadCall order) (empty_registry space)))
           = length requests \<and>
         distinct (map fe_id (ListCatalog (serve_all (map UploadCall order) (empty_registry space)))) \<and>
         map fe_name (ListCatalog (serve_all (map UploadCall order) (empty_registry space)))
           = map (\<lambda>q. the (up_filename q)) order"
proof -
  let ?R = "serve_all (map UploadCall order) (empty_registry space)"
  from assms(1) have same: "set order = set requests" "length order = length requests"
    by (auto dest: mset_eq_setD mset_eq_length)
  have "sum_list (map request_size order) = sum_mset (image_mset request_size (mset order))"
    by (metis mset_map sum_mset_sum_list)
  also have "\<dots> = sum_list (map request_size requests)"
    unfolding assms(1) by (metis mset_map sum_mset_sum_list)
  finally have fits: "stored_bytes (empty_registry space) + sum_list (map request_size order)
      \<le> capacity (empty_registry space)"
    using assms(3) by (simp add: stored_bytes_def empty_registry_def)
  from same(1) assms(2) have acc: "\<forall>q \<in> set order. accepted q" by simp
  from accepted_uploads_names [OF acc fits]
  have names: "map sf_name (catalog ?R) = map (\<lambda>q. the (up_filename q)) order"
    by (simp add: empty_registry_def)
  then have "length (map sf_name (catalog ?R)) = length (map (\<lambda>q. the (up_filename q)) order)"
    by (rule arg_cong)
  with same(2) have len: "length (catalog ?R) = length requests" by simp
  have "distinct (map sf_id (catalog ?R))"
    using consistent_serve_all [OF consistent_empty, of "map UploadCall order" space]
    by (simp add: consistent_def)
  with len names show ?thesis
    by (simp add: ListCatalog_def comp_def)
qed

theorem concurrent_uploads_all_listed_witness:
  "length (ListCatalog (serve_all
      [UploadCall \<lparr>up_filename = Some ''b.txt'', up_body = Some ''ho'',
                    up_mimeType = ''text/plain'', up_fileId = Some ''k3x9q2w8e''\<rparr>,
       UploadCall \<lparr>up_filename = Some ''a.txt'', up_body = Some ''hi'',
                    up_mimeType = ''text/plain'', up_fileId = Some ''k3x9q2w8e''\<rparr>]
      (empty_registry 1000))) = 2 \<and>
   distinct (map fe_id (ListCatalog (serve_all
      [UploadCall \<lparr>up_filename = Some ''b.txt'', up_body = Some ''ho'',
                    up_mimeType = ''text/plain'', up_fileId = Some ''k3x9q2w8e''\<rparr>,
       UploadCall \<lparr>up_filename = Some ''a.txt'', up_body = Some ''hi'',
                    up_mimeType = ''text/plain'', up_fileId = Some ''k3x9q2w8e''\<rparr>]
      (empty_registry 1000)))) \<and>
   map fe_name (ListCatalog (serve_all
      [UploadCall \<lparr>up_filename = Some ''b.txt'', up_body = Some ''ho'',
                    up_mimeType = ''text/plain'', up_fileId = Some ''k3x9q2w8e''\<rparr>,
       UploadCall \<lparr>up_filename = Some ''a.txt'', up_body = Some ''hi'',
                    up_mimeType = ''text/plain'', up_fileId = Some ''k3x9q2w8e''\<rparr>]
      (empty_registry 1000))) = [''b.txt'', ''a.txt'']"
  using concurrent_uploads_all_listed [of
      "[\<lparr>up_filename = Some ''b.txt'', up_body = Some ''ho'',
                    up_mimeType = ''text/plain'', up_fileId = Some ''k3x9q2w8e''\<rparr>,
        \<lparr>up_filename = Some ''a.txt'', up_body = Some ''hi'',
                    up_mimeType = ''text/plain'', up_fileId = Some ''k3x9q2w8e''\<rparr>]"
      "[\<lparr>up_filename = Some ''a.txt'', up_body = Some ''hi'',
                    up_mimeType = ''text/plain'', up_fileId = Some ''k3x9q2w8e''\<rparr>,
        \<lparr>up_filename = Some ''b.txt'', up_body = Some ''ho'',
                    up_mimeType = ''text/plain'', up_fileId = Some ''k3x9q2w8e''\<rparr>]" 1000]
  by (simp add: accepted_def request_size_def add_mset_commute)

end
